theory Spec2Isabelle
  imports Complex_Main "HOL-Library.Word"
begin

unbundle bit_operations_syntax

section \<open>Data model\<close>

text \<open>
  The front end (\<^verbatim>\<open>src/frontend/src/App.tsx\<close>) keeps its state in React hooks. The
  embedding is a record of those hooks, updated by explicit state passing.

  Values that come out of \<^verbatim>\<open>response.json()\<close> are not checked against the TypeScript
  interfaces at run time, so a field of a region can be \<^verbatim>\<open>undefined\<close>. A field that the
  code only copies around is therefore an \<open>option\<close>, with \<open>None\<close> for \<^verbatim>\<open>undefined\<close>.
\<close>

datatype js_error =
    Error string
  | RangeError string
  | TypeError string
  | SyntaxError string

fun message :: "js_error \<Rightarrow> string" where
  "message (Error m) = m"
| "message (RangeError m) = m"
| "message (TypeError m) = m"
| "message (SyntaxError m) = m"

text \<open>\<^verbatim>\<open>(geometryIndices.length / positions.count) * 100\<close>, kept as its two operands.\<close>

datatype percentage = Percentage nat nat

record PaintRegion =
  region_id :: "string option"
  region_name :: "string option"
  color :: "string option"
  visible :: bool
  vertex_indices :: "nat list"
  vertex_count :: nat
  vertex_percentage :: percentage

text \<open>
  A region as the segmentation service sends it. \<open>b_visible\<close> is the truthiness of
  whatever \<^verbatim>\<open>visible\<close> field the object carries; the spread \<^verbatim>\<open>...region\<close> copies it.
  The numbers of \<^verbatim>\<open>vertex_indices\<close> are JSON numbers, so they can be negative.
\<close>

record BackendRegion =
  b_id :: "string option"
  b_name :: "string option"
  b_color :: "string option"
  b_visible :: bool
  b_vertex_indices :: "int list option"

record BackendResponse =
  success :: bool
  resp_regions :: "BackendRegion list option"
  resp_error :: "string option"

text \<open>
  What \<^verbatim>\<open>await fetch(...)\<close> followed by \<^verbatim>\<open>await response.json()\<close> can give: the
  promise of \<^verbatim>\<open>fetch\<close> rejects, or it resolves to a response whose body parses or not.
\<close>

record HttpResponse =
  ok :: bool
  statusText :: string
  json :: "js_error + BackendResponse"

datatype fetch_result = Rejected js_error | Resolved HttpResponse

type_synonym 'f vec3 = "'f \<times> 'f \<times> 'f"

section \<open>Vertex canonicalisation and region expansion (segmentWithBackend)\<close>

text \<open>
  A \<^verbatim>\<open>THREE.BufferAttribute\<close> of item size 3 over a flat array: \<^verbatim>\<open>count\<close> is the number
  of whole triples, \<^verbatim>\<open>getX(i)\<close>, \<^verbatim>\<open>getY(i)\<close>, \<^verbatim>\<open>getZ(i)\<close> read the \<open>i\<close>-th triple.
\<close>

definition position_count :: "'f list \<Rightarrow> nat" where
  "position_count array = length array div 3"

definition getXYZ :: "'f list \<Rightarrow> nat \<Rightarrow> 'f vec3" where
  "getXYZ array i = (array ! (i * 3), array ! (i * 3 + 1), array ! (i * 3 + 2))"

text \<open>
  The key \<^verbatim>\<open>`${x.toFixed(d)},${y.toFixed(d)},${z.toFixed(d)}`\<close>. \<^verbatim>\<open>Number.prototype.toFixed\<close>
  is the platform's; it is a parameter \<open>toFixed\<close> of every definition that forms keys.
\<close>

definition vertexKey :: "('f \<Rightarrow> nat \<Rightarrow> string) \<Rightarrow> nat \<Rightarrow> 'f vec3 \<Rightarrow> string" where
  "vertexKey toFixed digits v =
     (case v of (x, y, z) \<Rightarrow> toFixed x digits @ '','' @ toFixed y digits @ '','' @ toFixed z digits)"

text \<open>App.tsx lines 247-257: one iteration of the loop that fills \<^verbatim>\<open>uniqueVertices\<close> and \<^verbatim>\<open>vertexArray\<close>.\<close>

definition uniqueStep ::
  "('f \<Rightarrow> nat \<Rightarrow> string) \<Rightarrow> 'f list \<Rightarrow> nat \<Rightarrow>
   (string \<rightharpoonup> nat) \<times> 'f vec3 list \<Rightarrow> (string \<rightharpoonup> nat) \<times> 'f vec3 list" where
  "uniqueStep toFixed positions i s =
     (case s of (uniqueVertices, vertexArray) \<Rightarrow>
        let v = getXYZ positions i;
            key = vertexKey toFixed 6 v
        in if uniqueVertices key = None
           then (uniqueVertices(key \<mapsto> length vertexArray), vertexArray @ [v])
           else (uniqueVertices, vertexArray))"

definition uniqueLoop ::
  "('f \<Rightarrow> nat \<Rightarrow> string) \<Rightarrow> 'f list \<Rightarrow> (string \<rightharpoonup> nat) \<times> 'f vec3 list" where
  "uniqueLoop toFixed positions =
     fold (uniqueStep toFixed positions) [0..<position_count positions] (Map.empty, [])"

text \<open>
  App.tsx lines 286-300: one iteration of the loop that fills \<^verbatim>\<open>reverseMapping\<close>. The
  map is keyed by JavaScript numbers; the keys written are the non-negative integers
  \<open>int backendIndex\<close>.
\<close>

definition reverseStep ::
  "('f \<Rightarrow> nat \<Rightarrow> string) \<Rightarrow> 'f list \<Rightarrow> (string \<rightharpoonup> nat) \<Rightarrow> nat \<Rightarrow>
   (int \<rightharpoonup> nat list) \<Rightarrow> (int \<rightharpoonup> nat list)" where
  "reverseStep toFixed positions uniqueVertices i reverseMapping =
     (let key = vertexKey toFixed 6 (getXYZ positions i)
      in case uniqueVertices key of
           None \<Rightarrow> reverseMapping
         | Some backendIndex \<Rightarrow>
             (case reverseMapping (int backendIndex) of
                None \<Rightarrow> reverseMapping(int backendIndex \<mapsto> [i])
              | Some geo \<Rightarrow> reverseMapping(int backendIndex \<mapsto> geo @ [i])))"

definition reverseLoop ::
  "('f \<Rightarrow> nat \<Rightarrow> string) \<Rightarrow> 'f list \<Rightarrow> (string \<rightharpoonup> nat) \<Rightarrow> (int \<rightharpoonup> nat list)" where
  "reverseLoop toFixed positions uniqueVertices =
     fold (reverseStep toFixed positions uniqueVertices) [0..<position_count positions] Map.empty"

text \<open>
  The forward map is not a variable of the source: it is the lookup
  \<^verbatim>\<open>uniqueVertices.get(key)\<close> of line 292, at the key of raw index \<open>i\<close>.
\<close>

definition forwardMap :: "('f \<Rightarrow> nat \<Rightarrow> string) \<Rightarrow> 'f list \<Rightarrow> nat \<Rightarrow> nat option" where
  "forwardMap toFixed positions i =
     fst (uniqueLoop toFixed positions) (vertexKey toFixed 6 (getXYZ positions i))"

text \<open>App.tsx lines 304-311: the raw indices of one region.\<close>

definition expandStep :: "(int \<rightharpoonup> nat list) \<Rightarrow> int \<Rightarrow> nat list \<Rightarrow> nat list" where
  "expandStep reverseMapping backendIdx geometryIndices =
     (case reverseMapping backendIdx of
        None \<Rightarrow> geometryIndices
      | Some geoIndices \<Rightarrow> geometryIndices @ geoIndices)"

definition expandRegion :: "(int \<rightharpoonup> nat list) \<Rightarrow> int list \<Rightarrow> nat list" where
  "expandRegion reverseMapping backendIndices = fold (expandStep reverseMapping) backendIndices []"

text \<open>
  App.tsx lines 303-319: the loop over the regions of the response. Iterating a missing
  \<^verbatim>\<open>vertex_indices\<close> throws a \<^verbatim>\<open>TypeError\<close>, which ends the loop.
\<close>

definition mapRegion :: "(int \<rightharpoonup> nat list) \<Rightarrow> nat \<Rightarrow> BackendRegion \<Rightarrow> js_error + PaintRegion" where
  "mapRegion reverseMapping cnt region =
     (case b_vertex_indices region of
        None \<Rightarrow> Inl (TypeError ''region.vertex_indices is not iterable'')
      | Some backendIndices \<Rightarrow>
          let geometryIndices = expandRegion reverseMapping backendIndices
          in Inr \<lparr> region_id = b_id region, region_name = b_name region, color = b_color region,
                   visible = b_visible region, vertex_indices = geometryIndices,
                   vertex_count = length geometryIndices,
                   vertex_percentage = Percentage (length geometryIndices) cnt \<rparr>)"

fun mapRegions :: "(int \<rightharpoonup> nat list) \<Rightarrow> nat \<Rightarrow> BackendRegion list \<Rightarrow> js_error + PaintRegion list" where
  "mapRegions reverseMapping cnt [] = Inr []"
| "mapRegions reverseMapping cnt (region # rest) =
     (case mapRegion reverseMapping cnt region of
        Inl e \<Rightarrow> Inl e
      | Inr mapped \<Rightarrow>
          (case mapRegions reverseMapping cnt rest of
             Inl e \<Rightarrow> Inl e
           | Inr mappedRegions \<Rightarrow> Inr (mapped # mappedRegions)))"

text \<open>
  App.tsx lines 239-322. \<open>fetch\<close> is the segmentation service as seen through
  \<^verbatim>\<open>fetch\<close> and \<^verbatim>\<open>response.json()\<close>: a function of the request body.
\<close>

definition segmentWithBackend ::
  "('f \<Rightarrow> nat \<Rightarrow> string) \<Rightarrow> ('f vec3 list \<Rightarrow> fetch_result) \<Rightarrow> 'f list \<Rightarrow> js_error + PaintRegion list" where
  "segmentWithBackend toFixed fetch positions =
     (case uniqueLoop toFixed positions of (uniqueVertices, vertexArray) \<Rightarrow>
        (case fetch vertexArray of
           Rejected e \<Rightarrow> Inl e
         | Resolved response \<Rightarrow>
             if \<not> ok response then Inl (Error (''Backend error: '' @ statusText response))
             else (case json response of
                     Inl e \<Rightarrow> Inl e
                   | Inr data \<Rightarrow>
                       if \<not> success data
                       then Inl (Error (case resp_error data of
                                          None \<Rightarrow> ''Segmentation failed''
                                        | Some m \<Rightarrow> if m = [] then ''Segmentation failed'' else m))
                       else let reverseMapping = reverseLoop toFixed positions uniqueVertices
                            in (case resp_regions data of
                                  None \<Rightarrow> Inl (TypeError ''backendRegions is not iterable'')
                                | Some backendRegions \<Rightarrow>
                                    mapRegions reverseMapping (position_count positions) backendRegions))))"

text \<open>The invariant of the first loop and the bucket of a raw index, used in the proofs.\<close>

definition table_inv :: "(nat \<Rightarrow> string) \<Rightarrow> nat set \<Rightarrow> (string \<rightharpoonup> nat) \<times> 'v list \<Rightarrow> bool" where
  "table_inv K S s =
     (case s of (m, arr) \<Rightarrow> dom m = K ` S \<and> inj_on m (dom m) \<and> ran m = {..<length arr})"

definition filedUnder ::
  "('f \<Rightarrow> nat \<Rightarrow> string) \<Rightarrow> 'f list \<Rightarrow> (string \<rightharpoonup> nat) \<Rightarrow> nat \<Rightarrow> int option" where
  "filedUnder tf ps m i = map_option int (m (vertexKey tf 6 (getXYZ ps i)))"

section \<open>The STL decoder (parseSTL)\<close>

text \<open>
  The file is a byte buffer read through a \<^verbatim>\<open>DataView\<close>. A read that does not fit in the
  buffer throws a \<^verbatim>\<open>RangeError\<close>. A 32-bit float is kept as its bit pattern, assembled
  little-endian as the call \<^verbatim>\<open>getFloat32(offset, true)\<close> does.
\<close>

type_synonym byte = "8 word"
type_synonym float32 = "32 word"

definition le32 :: "byte list \<Rightarrow> nat \<Rightarrow> nat" where
  "le32 view offset =
     unat (view ! offset) + 256 * unat (view ! (offset + 1)) +
     65536 * unat (view ! (offset + 2)) + 16777216 * unat (view ! (offset + 3))"

definition getUint32 :: "byte list \<Rightarrow> nat \<Rightarrow> js_error + nat" where
  "getUint32 view offset =
     (if offset + 4 \<le> length view then Inr (le32 view offset)
      else Inl (RangeError ''Offset is outside the bounds of the DataView''))"

text \<open>
  The number that \<^verbatim>\<open>getFloat32\<close> returns is stored in a \<^verbatim>\<open>Float32Array\<close>. On the way
  from the bytes of the file to that array a signalling NaN becomes the quiet NaN with
  the same sign and payload (bit 22 is set); every other bit pattern arrives unchanged.
  The standard leaves the encoding of a NaN to the engine; this is what the engines do
  that convert the float to a double and back.
\<close>

definition quietNaN :: "float32 \<Rightarrow> float32" where
  "quietNaN w = (if drop_bit 23 w AND 255 = 255 \<and> w AND 0x7FFFFF \<noteq> 0 then w OR 0x400000 else w)"

definition float32Bits :: "byte list \<Rightarrow> nat \<Rightarrow> float32" where
  "float32Bits view offset = quietNaN (of_nat (le32 view offset))"

definition getFloat32 :: "byte list \<Rightarrow> nat \<Rightarrow> js_error + float32" where
  "getFloat32 view offset =
     (if offset + 4 \<le> length view then Inr (float32Bits view offset)
      else Inl (RangeError ''Offset is outside the bounds of the DataView''))"

definition outOfBounds :: js_error where
  "outOfBounds = RangeError ''Offset is outside the bounds of the DataView''"

definition bindE :: "'e + 'a \<Rightarrow> ('a \<Rightarrow> 'e + 'b) \<Rightarrow> 'e + 'b" where
  "bindE r f = (case r of Inl e \<Rightarrow> Inl e | Inr a \<Rightarrow> f a)"

text \<open>
  App.tsx lines 216-227: the inner loop over the three corners of a triangle. The state
  is \<open>(offset, vertexIndex, vertices, normals)\<close>; \<open>j\<close> counts the corners still to read.
\<close>

fun readCorners ::
  "byte list \<Rightarrow> float32 vec3 \<Rightarrow> nat \<Rightarrow> nat \<times> nat \<times> float32 list \<times> float32 list \<Rightarrow>
   js_error + nat \<times> nat \<times> float32 list \<times> float32 list" where
  "readCorners view n 0 s = Inr s"
| "readCorners view n (Suc j) (offset, vertexIndex, vertices, normals) =
     bindE (getFloat32 view offset) (\<lambda>x.
     bindE (getFloat32 view (offset + 4)) (\<lambda>y.
     bindE (getFloat32 view (offset + 8)) (\<lambda>z.
       case n of (nx, ny, nz) \<Rightarrow>
         readCorners view n j
           (offset + 12, vertexIndex + 3,
            vertices[vertexIndex := x, vertexIndex + 1 := y, vertexIndex + 2 := z],
            normals[vertexIndex := nx, vertexIndex + 1 := ny, vertexIndex + 2 := nz]))))"

text \<open>
  App.tsx lines 208-229: the loop over the triangles; \<open>k\<close> counts the triangles still to
  read (the loop variable \<^verbatim>\<open>i\<close> is not used in the body).
\<close>

fun readTriangles ::
  "byte list \<Rightarrow> nat \<Rightarrow> nat \<times> nat \<times> float32 list \<times> float32 list \<Rightarrow>
   js_error + nat \<times> nat \<times> float32 list \<times> float32 list" where
  "readTriangles view 0 s = Inr s"
| "readTriangles view (Suc k) (offset, vertexIndex, vertices, normals) =
     bindE (getFloat32 view offset) (\<lambda>nx.
     bindE (getFloat32 view (offset + 4)) (\<lambda>ny.
     bindE (getFloat32 view (offset + 8)) (\<lambda>nz.
     bindE (readCorners view (nx, ny, nz) 3 (offset + 12, vertexIndex, vertices, normals)) (\<lambda>s.
       case s of (offset', vertexIndex', vertices', normals') \<Rightarrow>
         readTriangles view k (offset' + 2, vertexIndex', vertices', normals')))))"

text \<open>The bytes of the ASCII string \<^verbatim>\<open>solid\<close>.\<close>

definition solid :: "nat list" where
  "solid = [115, 111, 108, 105, 100]"

record ('f, 'c) BufferGeometry =
  position :: "'f list"
  normal :: "'f list"
  color_attr :: "'c list option"

text \<open>
  App.tsx lines 185-236. \<^verbatim>\<open>new Uint8Array(arrayBuffer, 0, 5)\<close> throws when the buffer has
  fewer than five bytes. Running out of memory in \<^verbatim>\<open>new Float32Array(triangleCount * 9)\<close>
  is not modelled.
\<close>

definition parseSTL :: "byte list \<Rightarrow> js_error + (float32, 'c) BufferGeometry" where
  "parseSTL view =
     (if length view < 5 then Inl (RangeError ''Invalid typed array length: 5'')
      else if map unat (take 5 view) = solid
      then Inl (Error ''ASCII STL not supported yet. Please use binary STL.'')
      else bindE (getUint32 view 80) (\<lambda>triangleCount.
           bindE (readTriangles view triangleCount
                    (84, 0, replicate (triangleCount * 9) 0, replicate (triangleCount * 9) 0)) (\<lambda>s.
             case s of (offset, vertexIndex, vertices, normals) \<Rightarrow>
               Inr \<lparr> position = vertices, normal = normals, color_attr = None \<rparr>)))"

section \<open>Application state and the colour compositor (applyColorsToGeometry)\<close>

text \<open>
  \<^verbatim>\<open>THREE.Color\<close> belongs to the three.js library, not to the repository: the function
  from the constructor's argument to the three components \<^verbatim>\<open>r\<close>, \<^verbatim>\<open>g\<close>, \<^verbatim>\<open>b\<close> is a
  parameter \<open>threeColor\<close>. The argument is a hexadecimal number, a style string,
  \<^verbatim>\<open>undefined\<close>, or the value of a property of \<^verbatim>\<open>Object.prototype\<close> (named by the
  property), which is a function or an object and none of the former.
\<close>

datatype color_arg = Hex nat | Style string | Undefined | Inherited string

definition colorArg :: "string option \<Rightarrow> color_arg" where
  "colorArg c = (case c of None \<Rightarrow> Undefined | Some s \<Rightarrow> Style s)"

text \<open>The three writes \<^verbatim>\<open>colors[idx * 3] = color.r\<close>, \<^verbatim>\<open>colors[idx * 3 + 1] = color.g\<close>,
  \<^verbatim>\<open>colors[idx * 3 + 2] = color.b\<close>. A write past the end of a typed array does nothing.\<close>

definition setRGB :: "'c list \<Rightarrow> nat \<Rightarrow> 'c vec3 \<Rightarrow> 'c list" where
  "setRGB colors idx c =
     (case c of (r, g, b) \<Rightarrow> colors[idx * 3 := r, idx * 3 + 1 := g, idx * 3 + 2 := b])"

text \<open>App.tsx lines 330-338: the new array and the loop that fills it with the default.\<close>

definition fillDefault :: "nat \<Rightarrow> 'c vec3 \<Rightarrow> 'c::zero list" where
  "fillDefault vertexCount defaultColor =
     fold (\<lambda>i colors. setRGB colors i defaultColor) [0..<vertexCount] (replicate (vertexCount * 3) 0)"

text \<open>App.tsx lines 347-353: the loop over the raw indices of one region.\<close>

definition paintIndices :: "nat \<Rightarrow> 'c vec3 \<Rightarrow> nat list \<Rightarrow> 'c list \<Rightarrow> 'c list" where
  "paintIndices vertexCount c indices colors =
     fold (\<lambda>idx cs. if idx < vertexCount then setRGB cs idx c else cs) indices colors"

text \<open>
  A property read \<^verbatim>\<open>paintedColors[region.id]\<close> turns the key into a string, so a missing
  id reads the property named \<^verbatim>\<open>undefined\<close>.
\<close>

definition propertyKey :: "string option \<Rightarrow> string" where
  "propertyKey k = (case k of None \<Rightarrow> ''undefined'' | Some s \<Rightarrow> s)"

text \<open>
  \<^verbatim>\<open>paintedColors\<close> and, in SimpleApp.tsx, \<^verbatim>\<open>regionColorMap\<close> are plain objects: a read
  that finds no own property goes on to \<^verbatim>\<open>Object.prototype\<close>. These are the names of
  its properties. The value of each is a function, that of \<^verbatim>\<open>__proto__\<close> is the prototype
  itself: all are truthy, none is a string, a number or a \<^verbatim>\<open>THREE.Color\<close>, and none has a
  property \<^verbatim>\<open>r\<close>, \<^verbatim>\<open>g\<close> or \<^verbatim>\<open>b\<close>. The map of the model holds the own properties.
\<close>

definition objectPrototype :: "string list" where
  "objectPrototype =
     [''constructor'', ''hasOwnProperty'', ''isPrototypeOf'', ''propertyIsEnumerable'',
      ''toLocaleString'', ''toString'', ''valueOf'', ''__proto__'',
      ''__defineGetter__'', ''__defineSetter__'', ''__lookupGetter__'', ''__lookupSetter__'']"

datatype 'v property_read = OwnValue 'v | PrototypeValue string | NoValue

definition getProperty :: "(string \<rightharpoonup> 'v) \<Rightarrow> string \<Rightarrow> 'v property_read" where
  "getProperty obj key =
     (case obj key of
        Some v \<Rightarrow> OwnValue v
      | None \<Rightarrow> if key \<in> set objectPrototype then PrototypeValue key else NoValue)"

text \<open>
  App.tsx lines 344-345: \<^verbatim>\<open>new THREE.Color(paintedColors[region.id] || region.color)\<close>, as
  the argument of the constructor. The empty string is falsy, an inherited value is
  truthy.
\<close>

definition colorHex :: "(string \<rightharpoonup> string) \<Rightarrow> PaintRegion \<Rightarrow> color_arg" where
  "colorHex paintedColors region =
     (case getProperty paintedColors (propertyKey (region_id region)) of
        OwnValue c \<Rightarrow> if c = [] then colorArg (color region) else Style c
      | PrototypeValue name \<Rightarrow> Inherited name
      | NoValue \<Rightarrow> colorArg (color region))"

text \<open>App.tsx lines 341-354: one step of \<^verbatim>\<open>regions.forEach\<close>.\<close>

definition paintRegion ::
  "(color_arg \<Rightarrow> 'c vec3) \<Rightarrow> nat \<Rightarrow> (string \<rightharpoonup> string) \<Rightarrow> PaintRegion \<Rightarrow> 'c list \<Rightarrow> 'c list" where
  "paintRegion threeColor vertexCount paintedColors region colors =
     (if \<not> visible region then colors
      else paintIndices vertexCount (threeColor (colorHex paintedColors region))
             (vertex_indices region) colors)"

text \<open>App.tsx lines 329-354: the buffer that \<^verbatim>\<open>applyColorsToGeometry\<close> attaches.\<close>

definition composeColors ::
  "(color_arg \<Rightarrow> 'c vec3) \<Rightarrow> nat \<Rightarrow> PaintRegion list \<Rightarrow> (string \<rightharpoonup> string) \<Rightarrow> 'c::zero list" where
  "composeColors threeColor vertexCount regions paintedColors =
     fold (paintRegion threeColor vertexCount paintedColors) regions
       (fillDefault vertexCount (threeColor (Hex 0x808080)))"

text \<open>
  Component \<open>k\<close> of a colour, and the region that colours raw index \<open>i\<close> last: the last
  region of the list that is visible and lists \<open>i\<close>.
\<close>

definition channel :: "nat \<Rightarrow> 'c vec3 \<Rightarrow> 'c" where
  "channel k c = (case c of (r, g, b) \<Rightarrow> if k = 0 then r else if k = 1 then g else b)"

definition lastPainter :: "PaintRegion list \<Rightarrow> nat \<Rightarrow> PaintRegion option" where
  "lastPainter rs i =
     (let painters = filter (\<lambda>r. visible r \<and> i \<in> set (vertex_indices r)) rs
      in if painters = [] then None else Some (last painters))"

record ('f, 'c) ModelData =
  model_name :: string
  model_size :: nat
  model_geometry :: "('f, 'c) BufferGeometry"
  model_vertexCount :: nat

datatype backend_status = Checking | Online | Offline

text \<open>
  The hooks of \<^verbatim>\<open>App\<close>. \<open>meshRef\<close> says whether \<^verbatim>\<open>meshRef.current\<close> is set; the mesh
  it refers to holds the same geometry object as \<open>modelData\<close>, so the colour buffer is the
  \<open>color_attr\<close> of that one geometry.
\<close>

record ('f, 'c) AppState =
  modelData :: "('f, 'c) ModelData option"
  regions :: "PaintRegion list"
  selectedRegion :: "string option"
  selectedColor :: string
  paintedColors :: "string \<rightharpoonup> string"
  isLoading :: bool
  backendStatus :: backend_status
  error :: string
  meshRef :: bool

text \<open>App.tsx lines 325-358.\<close>

definition applyColorsToGeometry ::
  "(color_arg \<Rightarrow> 'c vec3) \<Rightarrow> ('f, 'c::zero) AppState \<Rightarrow> ('f, 'c) AppState" where
  "applyColorsToGeometry threeColor st =
     (case modelData st of
        None \<Rightarrow> st
      | Some md \<Rightarrow>
          if \<not> meshRef st then st
          else let colors = composeColors threeColor (position_count (position (model_geometry md)))
                              (regions st) (paintedColors st)
               in st\<lparr> modelData := Some (md\<lparr> model_geometry := (model_geometry md)\<lparr> color_attr := Some colors \<rparr> \<rparr>) \<rparr>)"

text \<open>The colour buffer of the loaded model, if there is one.\<close>

definition colorBuffer :: "('f, 'c) AppState \<Rightarrow> 'c list option" where
  "colorBuffer st = (case modelData st of None \<Rightarrow> None | Some md \<Rightarrow> color_attr (model_geometry md))"

text \<open>App.tsx lines 565-582.\<close>

definition handleColorSelect :: "string option \<Rightarrow> string \<Rightarrow> ('f, 'c) AppState \<Rightarrow> ('f, 'c) AppState" where
  "handleColorSelect regionId c st =
     st\<lparr> paintedColors := (paintedColors st)(propertyKey regionId \<mapsto> c) \<rparr>"

definition toggleRegionVisibility :: "string option \<Rightarrow> ('f, 'c) AppState \<Rightarrow> ('f, 'c) AppState" where
  "toggleRegionVisibility regionId st =
     st\<lparr> regions := map (\<lambda>r. if region_id r = regionId then r\<lparr> visible := \<not> visible r \<rparr> else r)
                        (regions st) \<rparr>"

definition resetColors :: "('f, 'c) AppState \<Rightarrow> ('f, 'c) AppState" where
  "resetColors st = st\<lparr> paintedColors := Map.empty \<rparr>"

text \<open>
  App.tsx lines 35-48 and 707-727: the palette, the only caller of
  \<^verbatim>\<open>handleColorSelect\<close>. It is rendered while \<^verbatim>\<open>selectedRegion\<close> is truthy, with one
  button for each of the twelve colours; a click runs \<^verbatim>\<open>setSelectedColor(color)\<close> and
  \<^verbatim>\<open>handleColorSelect(selectedRegion, color)\<close>.
\<close>

definition PAINT_COLORS :: "string list" where
  "PAINT_COLORS =
     [''#8B4513'', ''#C0C0C0'', ''#FFD700'', ''#4682B4'', ''#8B0000'', ''#228B22'',
      ''#4B0082'', ''#FF6347'', ''#2F4F4F'', ''#F0E68C'', ''#800080'', ''#000000'']"

definition clickColor :: "string \<Rightarrow> ('f, 'c) AppState \<Rightarrow> ('f, 'c) AppState option" where
  "clickColor c st =
     (case selectedRegion st of
        None \<Rightarrow> None
      | Some r \<Rightarrow>
          if r = [] \<or> c \<notin> set PAINT_COLORS then None
          else Some (handleColorSelect (Some r) c (st\<lparr> selectedColor := c \<rparr>)))"

section \<open>The upload pipeline (handleFileUpload)\<close>

record File =
  file_name :: string
  file_size :: nat
  arrayBuffer :: "byte list"

text \<open>
  App.tsx lines 376-406, the part of the \<^verbatim>\<open>try\<close> block that can throw: the decoder,
  the centring and scaling by three.js (a parameter \<open>centerScale\<close>), and the segmentation.
\<close>

definition uploadPipeline ::
  "(float32 \<Rightarrow> nat \<Rightarrow> string) \<Rightarrow>
   ((float32, 'c) BufferGeometry \<Rightarrow> (float32, 'c) BufferGeometry) \<Rightarrow>
   (float32 vec3 list \<Rightarrow> fetch_result) \<Rightarrow> File \<Rightarrow>
   js_error + (float32, 'c) BufferGeometry \<times> PaintRegion list" where
  "uploadPipeline toFixed centerScale fetch file =
     bindE (parseSTL (arrayBuffer file)) (\<lambda>parsed.
       let geometry = centerScale parsed
       in bindE (segmentWithBackend toFixed fetch (position geometry)) (\<lambda>backendRegions.
            Inr (geometry, backendRegions)))"

text \<open>App.tsx lines 415-438: the first colouring, before the mesh is created.\<close>

definition initialColors :: "(color_arg \<Rightarrow> 'c vec3) \<Rightarrow> nat \<Rightarrow> PaintRegion list \<Rightarrow> 'c::zero list" where
  "initialColors threeColor vertexCount visibleRegions =
     fold (\<lambda>region colors.
             paintIndices vertexCount (threeColor (colorArg (color region))) (vertex_indices region) colors)
       visibleRegions (fillDefault vertexCount (threeColor (Hex 0xcccccc)))"

text \<open>App.tsx lines 370-371: what runs before the first \<^verbatim>\<open>await\<close>.\<close>

definition uploadStart :: "('f, 'c) AppState \<Rightarrow> ('f, 'c) AppState" where
  "uploadStart st = st\<lparr> isLoading := True, error := [] \<rparr>"

text \<open>
  App.tsx lines 408-561: what runs once the awaited work has settled, either the rest of
  the \<^verbatim>\<open>try\<close> block or the \<^verbatim>\<open>catch\<close> block, and then \<^verbatim>\<open>finally\<close>.
\<close>

definition uploadSettle ::
  "(color_arg \<Rightarrow> 'c vec3) \<Rightarrow> File \<Rightarrow> js_error + (float32, 'c) BufferGeometry \<times> PaintRegion list \<Rightarrow>
   (float32, 'c::zero) AppState \<Rightarrow> (float32, 'c) AppState" where
  "uploadSettle threeColor file outcome st =
     (case outcome of
        Inl err \<Rightarrow> st\<lparr> error := message err, isLoading := False \<rparr>
      | Inr (geometry, backendRegions) \<Rightarrow>
          let visibleRegions = map (\<lambda>r. r\<lparr> visible := True \<rparr>) backendRegions;
              vertexCount = position_count (position geometry);
              colors = initialColors threeColor vertexCount visibleRegions;
              colored = geometry\<lparr> color_attr := Some colors \<rparr>
          in st\<lparr> regions := visibleRegions,
                 meshRef := True,
                 modelData := Some \<lparr> model_name = file_name file, model_size = file_size file,
                                      model_geometry = colored, model_vertexCount = vertexCount \<rparr>,
                 selectedRegion := (case visibleRegions of [] \<Rightarrow> selectedRegion st
                                    | r # rs \<Rightarrow> region_id r),
                 paintedColors := Map.empty,
                 isLoading := False \<rparr>)"

text \<open>App.tsx lines 366-562, run from start to end with no other event in between.\<close>

definition handleFileUpload ::
  "(float32 \<Rightarrow> nat \<Rightarrow> string) \<Rightarrow>
   ((float32, 'c) BufferGeometry \<Rightarrow> (float32, 'c) BufferGeometry) \<Rightarrow>
   (color_arg \<Rightarrow> 'c vec3) \<Rightarrow>
   (float32 vec3 list \<Rightarrow> fetch_result) \<Rightarrow> File option \<Rightarrow>
   (float32, 'c::zero) AppState \<Rightarrow> (float32, 'c) AppState" where
  "handleFileUpload toFixed centerScale threeColor fetch files st =
     (case files of
        None \<Rightarrow> st
      | Some file \<Rightarrow>
          uploadSettle threeColor file (uploadPipeline toFixed centerScale fetch file) (uploadStart st))"

section \<open>The upload controls\<close>

text \<open>
  App.tsx lines 632-653 and 741-750: the two \<^verbatim>\<open>input type="file"\<close> elements. The first is
  rendered while no model is loaded and carries a \<^verbatim>\<open>disabled\<close> attribute; the second is
  rendered once a model is loaded and carries none.
\<close>

datatype upload_control = UploadOverlay | NewModel

definition rendered :: "('f, 'c) AppState \<Rightarrow> upload_control \<Rightarrow> bool" where
  "rendered st c = (case c of UploadOverlay \<Rightarrow> modelData st = None | NewModel \<Rightarrow> modelData st \<noteq> None)"

definition disabled :: "('f, 'c) AppState \<Rightarrow> upload_control \<Rightarrow> bool" where
  "disabled st c =
     (case c of UploadOverlay \<Rightarrow> isLoading st \<or> backendStatus st \<noteq> Online | NewModel \<Rightarrow> False)"

text \<open>
  The page between two events: the hooks and the uploads whose awaited work has not
  settled yet. Choosing a file on a control that is rendered and enabled runs
  \<^verbatim>\<open>handleFileUpload\<close> up to its first \<^verbatim>\<open>await\<close>.
\<close>

record ('f, 'c) Page =
  hooks :: "('f, 'c) AppState"
  inFlight :: "File list"

definition chooseFile :: "upload_control \<Rightarrow> File \<Rightarrow> ('f, 'c) Page \<Rightarrow> ('f, 'c) Page option" where
  "chooseFile c file page =
     (if rendered (hooks page) c \<and> \<not> disabled (hooks page) c
      then Some (page\<lparr> hooks := uploadStart (hooks page), inFlight := inFlight page @ [file] \<rparr>)
      else None)"

section \<open>The minimal front end (SimpleApp.tsx)\<close>

text \<open>
  \<^verbatim>\<open>src/unnamed/part_001\<close> is \<^verbatim>\<open>frontend/src/SimpleApp.tsx\<close>. Its decoder (lines 63-90)
  has no signature check, skips the normal without reading it and returns the vertices only.
\<close>

fun readCornersSimple ::
  "byte list \<Rightarrow> nat \<Rightarrow> nat \<times> nat \<times> float32 list \<Rightarrow> js_error + nat \<times> nat \<times> float32 list" where
  "readCornersSimple view 0 s = Inr s"
| "readCornersSimple view (Suc j) (offset, vertexIndex, vertices) =
     bindE (getFloat32 view offset) (\<lambda>x.
     bindE (getFloat32 view (offset + 4)) (\<lambda>y.
     bindE (getFloat32 view (offset + 8)) (\<lambda>z.
       readCornersSimple view j
         (offset + 12, vertexIndex + 3,
          vertices[vertexIndex := x, vertexIndex + 1 := y, vertexIndex + 2 := z]))))"

fun readTrianglesSimple ::
  "byte list \<Rightarrow> nat \<Rightarrow> nat \<times> nat \<times> float32 list \<Rightarrow> js_error + nat \<times> nat \<times> float32 list" where
  "readTrianglesSimple view 0 s = Inr s"
| "readTrianglesSimple view (Suc k) (offset, vertexIndex, vertices) =
     bindE (readCornersSimple view 3 (offset + 12, vertexIndex, vertices)) (\<lambda>s.
       case s of (offset', vertexIndex', vertices') \<Rightarrow>
         readTrianglesSimple view k (offset' + 2, vertexIndex', vertices'))"

definition parseSTLSimple :: "byte list \<Rightarrow> js_error + float32 list" where
  "parseSTLSimple view =
     bindE (getUint32 view 80) (\<lambda>triangleCount.
     bindE (readTrianglesSimple view triangleCount (84, 0, replicate (triangleCount * 9) 0)) (\<lambda>s.
       case s of (offset, vertexIndex, vertices) \<Rightarrow> Inr vertices))"

text \<open>
  SimpleApp.tsx lines 104-113: the set of keys and the array sent to the service. The loop
  steps through the flat array three entries at a time; \<open>j\<close> is \<^verbatim>\<open>i / 3\<close>.
\<close>

definition simpleUniqueStep ::
  "('f \<Rightarrow> nat \<Rightarrow> string) \<Rightarrow> 'f list \<Rightarrow> nat \<Rightarrow> string set \<times> 'f vec3 list \<Rightarrow> string set \<times> 'f vec3 list" where
  "simpleUniqueStep toFixed vertices j s =
     (case s of (uniqueVerts, vertArray) \<Rightarrow>
        let v = getXYZ vertices j;
            key = vertexKey toFixed 4 v
        in if key \<notin> uniqueVerts then (insert key uniqueVerts, vertArray @ [v])
           else (uniqueVerts, vertArray))"

definition simpleUniqueLoop :: "('f \<Rightarrow> nat \<Rightarrow> string) \<Rightarrow> 'f list \<Rightarrow> string set \<times> 'f vec3 list" where
  "simpleUniqueLoop toFixed vertices =
     fold (simpleUniqueStep toFixed vertices) [0..<position_count vertices] ({}, [])"

text \<open>SimpleApp.tsx lines 182-190: from a key to the raw indices that carry it.\<close>

definition uniqueToFullStep ::
  "('f \<Rightarrow> nat \<Rightarrow> string) \<Rightarrow> 'f list \<Rightarrow> nat \<Rightarrow> (string \<rightharpoonup> nat list) \<Rightarrow> (string \<rightharpoonup> nat list)" where
  "uniqueToFullStep toFixed vertices vertexIndex uniqueToFull =
     (let key = vertexKey toFixed 4 (getXYZ vertices vertexIndex)
      in case uniqueToFull key of
           None \<Rightarrow> uniqueToFull(key \<mapsto> [vertexIndex])
         | Some full \<Rightarrow> uniqueToFull(key \<mapsto> full @ [vertexIndex]))"

definition uniqueToFullLoop :: "('f \<Rightarrow> nat \<Rightarrow> string) \<Rightarrow> 'f list \<Rightarrow> (string \<rightharpoonup> nat list)" where
  "uniqueToFullLoop toFixed vertices =
     fold (uniqueToFullStep toFixed vertices) [0..<position_count vertices] Map.empty"

text \<open>SimpleApp.tsx lines 173-179.\<close>

definition regionColorMap :: "string \<rightharpoonup> color_arg" where
  "regionColorMap =
     [''base'' \<mapsto> Hex 0x8B4513, ''legs'' \<mapsto> Hex 0x4682B4, ''torso'' \<mapsto> Hex 0xC0C0C0,
      ''arms'' \<mapsto> Hex 0xCD853F, ''head'' \<mapsto> Hex 0xF5DEB3]"

fun foldE :: "('a \<Rightarrow> 's \<Rightarrow> 'e + 's) \<Rightarrow> 'a list \<Rightarrow> 's \<Rightarrow> 'e + 's" where
  "foldE f [] s = Inr s"
| "foldE f (x # xs) s = bindE (f x s) (foldE f xs)"

text \<open>
  SimpleApp.tsx lines 197-213: one index of a region. The guard compares with the length
  only; for a negative index \<^verbatim>\<open>vertArray[backendIdx]\<close> is \<^verbatim>\<open>undefined\<close> and reading
  \<^verbatim>\<open>vert[0]\<close> throws.
\<close>

definition simplePaintIndex ::
  "('f \<Rightarrow> nat \<Rightarrow> string) \<Rightarrow> 'f vec3 list \<Rightarrow> (string \<rightharpoonup> nat list) \<Rightarrow> 'c vec3 \<Rightarrow> int \<Rightarrow>
   'c list \<Rightarrow> js_error + 'c list" where
  "simplePaintIndex toFixed vertArray uniqueToFull c backendIdx colors =
     (if backendIdx < int (length vertArray)
      then if backendIdx < 0
           then Inl (TypeError ''Cannot read properties of undefined (reading 0)'')
           else let vert = vertArray ! nat backendIdx;
                    key = vertexKey toFixed 4 vert
                in case uniqueToFull key of
                     None \<Rightarrow> Inr colors
                   | Some fullIndices \<Rightarrow> Inr (fold (\<lambda>idx cs. setRGB cs idx c) fullIndices colors)
      else Inr colors)"

text \<open>
  The colour of a region is \<^verbatim>\<open>regionColorMap[region.id] || new THREE.Color(...)\<close>: a
  \<^verbatim>\<open>THREE.Color\<close>, or a value inherited from \<^verbatim>\<open>Object.prototype\<close>, which is truthy and
  has no \<^verbatim>\<open>r\<close>, \<^verbatim>\<open>g\<close>, \<^verbatim>\<open>b\<close>. Storing \<^verbatim>\<open>undefined\<close> in a \<^verbatim>\<open>Float32Array\<close> leaves
  NaN there. So an entry of the colour buffer is \<open>Some\<close> number or \<open>None\<close> for NaN, and
  \<open>rgb\<close> gives the three entries that the three writes leave.
\<close>

fun rgb :: "'c vec3 option \<Rightarrow> 'c option vec3" where
  "rgb None = (None, None, None)"
| "rgb (Some (r, g, b)) = (Some r, Some g, Some b)"

text \<open>
  SimpleApp.tsx lines 193-214: one region. \<open>random k\<close> is the integer part of the \<open>k\<close>-th
  value of \<^verbatim>\<open>Math.random() * 0xffffff\<close>; the state carries the number of draws so far.
\<close>

definition simplePaintRegion ::
  "('f \<Rightarrow> nat \<Rightarrow> string) \<Rightarrow> (color_arg \<Rightarrow> 'c vec3) \<Rightarrow> (nat \<Rightarrow> nat) \<Rightarrow> 'f vec3 list \<Rightarrow>
   (string \<rightharpoonup> nat list) \<Rightarrow> BackendRegion \<Rightarrow> nat \<times> 'c option list \<Rightarrow>
   js_error + nat \<times> 'c option list" where
  "simplePaintRegion toFixed threeColor random vertArray uniqueToFull region s =
     (case s of (draws, colors) \<Rightarrow>
        let (c, draws') = (case getProperty regionColorMap (propertyKey (b_id region)) of
                             OwnValue known \<Rightarrow> (Some (threeColor known), draws)
                           | PrototypeValue name \<Rightarrow> (None, draws)
                           | NoValue \<Rightarrow> (Some (threeColor (Hex (random draws))), Suc draws))
        in case b_vertex_indices region of
             None \<Rightarrow> Inl (TypeError ''Cannot read properties of undefined (reading forEach)'')
           | Some backendIndices \<Rightarrow>
               bindE (foldE (simplePaintIndex toFixed vertArray uniqueToFull (rgb c))
                        backendIndices colors)
                 (\<lambda>colors'. Inr (draws', colors')))"

text \<open>
  SimpleApp.tsx lines 161-214: the colour buffer, from the array \<open>vertArray\<close> built before
  the request and the vertex array as it is when the colours are applied.
\<close>

definition simpleColors ::
  "('f \<Rightarrow> nat \<Rightarrow> string) \<Rightarrow> (color_arg \<Rightarrow> 'c vec3) \<Rightarrow> (nat \<Rightarrow> nat) \<Rightarrow> 'f vec3 list \<Rightarrow> 'f list \<Rightarrow>
   BackendRegion list \<Rightarrow> js_error + 'c::zero option list" where
  "simpleColors toFixed threeColor random vertArray vertices dataRegions =
     (let colors = map Some (fillDefault (position_count vertices) (threeColor (Hex 0x808080)));
          uniqueToFull = uniqueToFullLoop toFixed vertices
      in bindE (foldE (simplePaintRegion toFixed threeColor random vertArray uniqueToFull)
                  dataRegions (0, colors))
           (\<lambda>s. Inr (snd s)))"

text \<open>
  SimpleApp.tsx lines 104-214 without the request: \<open>vertArray\<close> is filled from the vertex
  array as decoded; then \<^verbatim>\<open>new THREE.BufferAttribute(vertices, 3)\<close> wraps the same array
  and \<^verbatim>\<open>geometry.center()\<close> and \<^verbatim>\<open>geometry.scale(...)\<close> (three.js, the parameter
  \<open>centerScale\<close>) rewrite it in place; the colouring step reads the rewritten array. An
  array whose length is not a multiple of three makes the first loop read
  \<^verbatim>\<open>undefined.toFixed\<close>.
\<close>

definition simplePaint ::
  "('f \<Rightarrow> nat \<Rightarrow> string) \<Rightarrow> ('f list \<Rightarrow> 'f list) \<Rightarrow> (color_arg \<Rightarrow> 'c vec3) \<Rightarrow> (nat \<Rightarrow> nat) \<Rightarrow>
   'f list \<Rightarrow> BackendRegion list \<Rightarrow> js_error + 'c::zero option list" where
  "simplePaint toFixed centerScale threeColor random vertices dataRegions =
     (if length vertices mod 3 \<noteq> 0
      then Inl (TypeError ''Cannot read properties of undefined (reading toFixed)'')
      else let vertArray = snd (simpleUniqueLoop toFixed vertices);
               vertices' = centerScale vertices
           in simpleColors toFixed threeColor random vertArray vertices' dataRegions)"

text \<open>
  The raw indices that the colouring step reaches from canonical index \<open>c\<close>: those filed
  in \<^verbatim>\<open>uniqueToFull\<close> under the key of \<^verbatim>\<open>vertArray[c]\<close>.
\<close>

definition simpleExpand ::
  "('f \<Rightarrow> nat \<Rightarrow> string) \<Rightarrow> ('f list \<Rightarrow> 'f list) \<Rightarrow> 'f list \<Rightarrow> nat \<Rightarrow> nat list" where
  "simpleExpand toFixed centerScale vertices c =
     (let vertArray = snd (simpleUniqueLoop toFixed vertices);
          uniqueToFull = uniqueToFullLoop toFixed (centerScale vertices)
      in case uniqueToFull (vertexKey toFixed 4 (vertArray ! c)) of
           None \<Rightarrow> []
         | Some fullIndices \<Rightarrow> fullIndices)"

section \<open>Concrete platform functions for the examples\<close>

text \<open>
  The examples run the definitions on meshes whose coordinates are rational numbers that
  32-bit floats represent exactly. \<open>toFixedRat\<close> is \<^verbatim>\<open>Number.prototype.toFixed\<close> on such
  numbers (ECMAScript 21.1.3.3, for a finite number below \<open>10\<^sup>2\<^sup>1\<close>): the integer
  \<open>n\<close> for which \<open>n / 10\<^sup>d\<close> is nearest to the number, the larger one on a tie, written
  in decimal with the point before the last \<open>d\<close> digits.
\<close>

function decimal :: "nat \<Rightarrow> string" where
  "decimal n = (if n < 10 then [''0123456789'' ! n] else decimal (n div 10) @ [''0123456789'' ! (n mod 10)])"
  by pat_completeness auto
termination
  by (relation "measure (\<lambda>n. n)") auto

declare decimal.simps [simp del]

definition toFixedRat :: "rat \<Rightarrow> nat \<Rightarrow> string" where
  "toFixedRat x digits =
     (let n = nat \<lfloor>\<bar>x\<bar> * 10 ^ digits + 1 / 2\<rfloor>;
          m = decimal n;
          z = replicate (digits + 1 - length m) CHR ''0'' @ m;
          k = length z
      in (if x < 0 then ''-'' else []) @
         (if digits = 0 then m else take (k - digits) z @ ''.'' @ drop (k - digits) z))"

text \<open>
  The number a 32-bit float stands for, when it is finite, and \<^verbatim>\<open>toFixed\<close> on the bit
  pattern. Numbers of \<open>10\<^sup>2\<^sup>1\<close> and above, which JavaScript prints with an exponent,
  are not covered.
\<close>

definition float32Rat :: "float32 \<Rightarrow> rat" where
  "float32Rat w =
     (let e = unat (drop_bit 23 w AND 255);
          m = unat (w AND 0x7FFFFF);
          magnitude = (if e = 0 then of_nat m / 2 ^ 149
                       else if 150 \<le> e then of_nat (2 ^ 23 + m) * 2 ^ (e - 150)
                       else of_nat (2 ^ 23 + m) / 2 ^ (150 - e))
      in if bit w 31 then - magnitude else magnitude)"

definition toFixed32 :: "float32 \<Rightarrow> nat \<Rightarrow> string" where
  "toFixed32 w digits =
     (if drop_bit 23 w AND 255 = 255
      then if w AND 0x7FFFFF \<noteq> 0 then ''NaN''
           else if bit w 31 then ''-Infinity'' else ''Infinity''
      else toFixedRat (float32Rat w) digits)"

text \<open>
  \<^verbatim>\<open>geometry.center()\<close> and \<^verbatim>\<open>geometry.scale(...)\<close> on a geometry without vertices:
  there is no position to rewrite, so the attributes stay as they are.
\<close>

definition keepGeometry :: "('f, 'c) BufferGeometry \<Rightarrow> ('f, 'c) BufferGeometry" where
  "keepGeometry g = g"

text \<open>
  \<^verbatim>\<open>Color.setHex\<close> of three.js, without colour-space conversion: the three bytes of the
  number, each divided by 255. A style string that is not understood leaves the colour
  white, as does no argument or an argument that is neither a colour, a number nor a
  string. Of the style strings only the form \<^verbatim>\<open>#rrggbb\<close> is covered.
\<close>

definition setHex :: "nat \<Rightarrow> rat vec3" where
  "setHex h = (of_nat (h div 65536 mod 256) / 255, of_nat (h div 256 mod 256) / 255, of_nat (h mod 256) / 255)"

definition hexDigit :: "char \<Rightarrow> nat option" where
  "hexDigit ch =
     (let n = (of_char ch :: nat)
      in if 48 \<le> n \<and> n \<le> 57 then Some (n - 48)
         else if 65 \<le> n \<and> n \<le> 70 then Some (n - 55)
         else if 97 \<le> n \<and> n \<le> 102 then Some (n - 87)
         else None)"

fun hexNumber :: "nat \<Rightarrow> string \<Rightarrow> nat option" where
  "hexNumber acc [] = Some acc"
| "hexNumber acc (ch # rest) =
     (case hexDigit ch of None \<Rightarrow> None | Some d \<Rightarrow> hexNumber (acc * 16 + d) rest)"

definition threeColorRat :: "color_arg \<Rightarrow> rat vec3" where
  "threeColorRat a =
     (case a of
        Hex h \<Rightarrow> setHex h
      | Undefined \<Rightarrow> (1, 1, 1)
      | Inherited name \<Rightarrow> (1, 1, 1)
      | Style s \<Rightarrow>
          (case s of
             [] \<Rightarrow> (1, 1, 1)
           | ch # rest \<Rightarrow>
               if ch = CHR ''#'' \<and> length rest = 6
               then (case hexNumber 0 rest of None \<Rightarrow> (1, 1, 1) | Some h \<Rightarrow> setHex h)
               else (1, 1, 1)))"

text \<open>
  \<^verbatim>\<open>geometry.center()\<close> followed by \<^verbatim>\<open>geometry.scale(s, s, s)\<close> with \<open>s = 5 / maxDim\<close>
  (SimpleApp.tsx lines 151-159) on a flat array of exact coordinates, for a mesh with at
  least one vertex and a bounding box that is not a point.
\<close>

definition axis :: "rat list \<Rightarrow> nat \<Rightarrow> rat list" where
  "axis vertices k = map (\<lambda>j. vertices ! (j * 3 + k)) [0..<length vertices div 3]"

definition minimum :: "rat list \<Rightarrow> rat" where
  "minimum xs = fold min xs (hd xs)"

definition maximum :: "rat list \<Rightarrow> rat" where
  "maximum xs = fold max xs (hd xs)"

definition centerScaleRat :: "rat list \<Rightarrow> rat list" where
  "centerScaleRat vertices =
     (let lo = map (\<lambda>k. minimum (axis vertices k)) [0, 1, 2];
          hi = map (\<lambda>k. maximum (axis vertices k)) [0, 1, 2];
          centre = map (\<lambda>k. (lo ! k + hi ! k) / 2) [0, 1, 2];
          maxDim = maximum (map (\<lambda>k. hi ! k - lo ! k) [0, 1, 2]);
          scale = 5 / maxDim
      in map (\<lambda>i. (vertices ! i - centre ! (i mod 3)) * scale) [0..<length vertices])"

section \<open>Example data\<close>

text \<open>App.tsx lines 58-65: the hooks as \<^verbatim>\<open>useState\<close> initialises them.\<close>

definition initialState :: "('f, 'c) AppState" where
  "initialState =
     \<lparr> modelData = None, regions = [], selectedRegion = Some [], selectedColor = ''#C0C0C0'',
       paintedColors = Map.empty, isLoading = False, backendStatus = Checking, error = [],
       meshRef = False \<rparr>"

text \<open>Three raw vertices, the first and the last at the same position.\<close>

definition seamPositions :: "rat list" where
  "seamPositions = [0, 0, 0, 1, 0, 0, 0, 0, 0]"

text \<open>Two regions that share raw index 1.\<close>

definition regionA :: PaintRegion where
  "regionA =
     \<lparr> region_id = Some ''base'', region_name = Some ''Base'', color = Some ''#8B4513'',
       visible = True, vertex_indices = [0, 1], vertex_count = 2,
       vertex_percentage = Percentage 2 3 \<rparr>"

definition regionB :: PaintRegion where
  "regionB =
     \<lparr> region_id = Some ''legs'', region_name = Some ''Legs'', color = Some ''#4682B4'',
       visible = True, vertex_indices = [1, 2], vertex_count = 2,
       vertex_percentage = Percentage 2 3 \<rparr>"

definition paintedState :: "(float32, rat) AppState" where
  "paintedState =
     \<lparr> modelData = Some \<lparr> model_name = ''seam.stl'', model_size = 134,
                           model_geometry = \<lparr> position = [0, 0, 0, 0, 0, 0, 0, 0, 0],
                                              normal = [0, 0, 0, 0, 0, 0, 0, 0, 0],
                                              color_attr = None \<rparr>,
                           model_vertexCount = 3 \<rparr>,
       regions = [regionA, regionB], selectedRegion = Some ''base'', selectedColor = ''#C0C0C0'',
       paintedColors = [''legs'' \<mapsto> ''#FFD700''], isLoading = False, backendStatus = Online,
       error = [], meshRef = True \<rparr>"

text \<open>
  A response with one region that lists canonical index 0 twice.
\<close>

definition seamFetch :: "rat vec3 list \<Rightarrow> fetch_result" where
  "seamFetch vertexArray =
     Resolved \<lparr> ok = True, statusText = ''OK'',
                json = Inr \<lparr> success = True,
                             resp_regions = Some [\<lparr> b_id = Some ''base'', b_name = Some ''Base'',
                                                    b_color = Some ''#8B4513'', b_visible = False,
                                                    b_vertex_indices = Some [0, 0, 1] \<rparr>],
                             resp_error = None \<rparr> \<rparr>"

text \<open>
  Files: the start of a textual STL file; a binary file with no triangle; a header that
  declares one triangle and nothing after it; and a file that declares one triangle and
  lacks the last two of its fifty bytes.
\<close>

definition asciiFile :: "byte list" where
  "asciiFile = [115, 111, 108, 105, 100, 32, 99, 117, 98, 101]"

definition emptyMeshFile :: "byte list" where
  "emptyMeshFile = replicate 84 0"

definition headerOnlyFile :: "byte list" where
  "headerOnlyFile = replicate 80 0 @ [1, 0, 0, 0]"

definition shortTailFile :: "byte list" where
  "shortTailFile = replicate 80 0 @ [1, 0, 0, 0] @ replicate 48 0"

definition emptyUpload :: File where
  "emptyUpload = \<lparr> file_name = ''empty.stl'', file_size = 84, arrayBuffer = emptyMeshFile \<rparr>"

definition asciiUpload :: File where
  "asciiUpload = \<lparr> file_name = ''cube.stl'', file_size = 10, arrayBuffer = asciiFile \<rparr>"

text \<open>A response whose only region has no id, no name and no colour.\<close>

definition namelessFetch :: "float32 vec3 list \<Rightarrow> fetch_result" where
  "namelessFetch vertexArray =
     Resolved \<lparr> ok = True, statusText = ''OK'',
                json = Inr \<lparr> success = True,
                             resp_regions = Some [\<lparr> b_id = None, b_name = None, b_color = None,
                                                    b_visible = False, b_vertex_indices = Some [] \<rparr>],
                             resp_error = None \<rparr> \<rparr>"

text \<open>
  One triangle that \<^verbatim>\<open>center()\<close> and \<^verbatim>\<open>scale()\<close> leave where it is (its bounding box is
  centred at the origin and five units wide), and one that they move: its box is
  \<open>[0, 4]\<^sup>3\<close>, so every coordinate \<open>x\<close> becomes \<open>(x - 2) * 5 / 4\<close>.
\<close>

definition centredVertices :: "rat list" where
  "centredVertices = [-5/2, -5/2, -5/2, 5/2, 5/2, 5/2, -5/2, 5/2, -5/2]"

definition offsetVertices :: "rat list" where
  "offsetVertices = [0, 0, 4, 4, 0, 0, 0, 4, 0]"

definition constantRandom :: "nat \<Rightarrow> nat \<Rightarrow> nat" where
  "constantRandom v k = v"

definition serviceRegion :: "string \<Rightarrow> int list \<Rightarrow> BackendRegion" where
  "serviceRegion name indices =
     \<lparr> b_id = Some name, b_name = Some name, b_color = Some ''#C0C0C0'', b_visible = False,
       b_vertex_indices = Some indices \<rparr>"

text \<open>
  A region with the id \<^verbatim>\<open>base\<close> and the colour that the table of SimpleApp.tsx holds for
  that id.
\<close>

definition baseRegion :: "int list \<Rightarrow> BackendRegion" where
  "baseRegion indices =
     \<lparr> b_id = Some ''base'', b_name = Some ''Base'', b_color = Some ''#8B4513'', b_visible = True,
       b_vertex_indices = Some indices \<rparr>"

section \<open>Theorems\<close>

section \<open>Evaluation of the platform functions\<close>

lemma floor_numeral_div: "\<lfloor>numeral a / numeral b :: rat\<rfloor> = numeral a div numeral b"
  using floor_divide_of_int_eq [of "numeral a" "numeral b", where ?'a = rat] by simp

lemma floor_one_div: "\<lfloor>1 / numeral b :: rat\<rfloor> = 1 div numeral b"
  using floor_divide_of_int_eq [of 1 "numeral b", where ?'a = rat] by simp

lemma replicate_numeral_eval: "replicate (numeral k) x = x # replicate (pred_numeral k) x"
  by (simp add: numeral_eq_Suc)

lemma toFixed6_0: "toFixedRat 0 6 = ''0.000000''"
  unfolding toFixedRat_def Let_def
  by (simp add: floor_one_div decimal.simps replicate_numeral_eval)

lemma toFixed6_1: "toFixedRat 1 6 = ''1.000000''"
  unfolding toFixedRat_def Let_def
  by (simp add: floor_numeral_div decimal.simps replicate_numeral_eval)

lemma upt_3: "[0..<3] = [0, 1, 2]"
  by (simp add: upt_rec)

lemma bindE_Inr [simp]: "bindE (Inr a) f = f a"
  by (simp add: bindE_def)

lemma bindE_Inl [simp]: "bindE (Inl e) f = Inl e"
  by (simp add: bindE_def)

section \<open>Canonicalisation\<close>

lemma mem_nonempty: "x \<in> set l \<Longrightarrow> l \<noteq> []"
  by (cases l) simp_all

lemma table_inv_step:
  assumes "table_inv (\<lambda>i. vertexKey tf 6 (getXYZ ps i)) S s"
  shows "table_inv (\<lambda>i. vertexKey tf 6 (getXYZ ps i)) (insert i S) (uniqueStep tf ps i s)"
proof -
  obtain m arr where s: "s = (m, arr)" by (cases s)
  let ?K = "\<lambda>i. vertexKey tf 6 (getXYZ ps i)"
  from assms s have d: "dom m = ?K ` S" and inj: "inj_on m (dom m)" and r: "ran m = {..<length arr}"
    by (auto simp: table_inv_def)
  show ?thesis
  proof (cases "m (?K i)")
    case None
    have nr: "length arr \<notin> ran m" using r by simp
    have "ran (m(?K i \<mapsto> length arr)) = insert (length arr) (ran m)"
      using None by simp
    moreover have "inj_on (m(?K i \<mapsto> length arr)) (dom (m(?K i \<mapsto> length arr)))"
      unfolding inj_on_def
    proof (intro ballI impI)
      fix x y assume x: "x \<in> dom (m(?K i \<mapsto> length arr))" and y: "y \<in> dom (m(?K i \<mapsto> length arr))"
        and e: "(m(?K i \<mapsto> length arr)) x = (m(?K i \<mapsto> length arr)) y"
      show "x = y"
      proof (cases "x = ?K i"; cases "y = ?K i")
        assume "x = ?K i" "y \<noteq> ?K i"
        with e have "m y = Some (length arr)" by simp
        then have "length arr \<in> ran m" by (auto simp: ran_def)
        with nr show ?thesis by simp
      next
        assume "x \<noteq> ?K i" "y = ?K i"
        with e have "m x = Some (length arr)" by simp
        then have "length arr \<in> ran m" by (auto simp: ran_def)
        with nr show ?thesis by simp
      next
        assume a: "x \<noteq> ?K i" "y \<noteq> ?K i"
        with x y e have "x \<in> dom m" "y \<in> dom m" "m x = m y" by auto
        with inj show ?thesis by (auto dest: inj_onD)
      qed simp
    qed
    ultimately show ?thesis using None s d r
      by (auto simp: table_inv_def uniqueStep_def Let_def)
  next
    case (Some c)
    then have "?K i \<in> dom m" by auto
    then have "?K i \<in> ?K ` S" using d by simp
    then have "?K ` insert i S = ?K ` S" by auto
    then show ?thesis using Some s d inj r
      by (simp add: table_inv_def uniqueStep_def Let_def)
  qed
qed

lemma table_inv_fold:
  "table_inv (\<lambda>i. vertexKey tf 6 (getXYZ ps i)) S s \<Longrightarrow>
   table_inv (\<lambda>i. vertexKey tf 6 (getXYZ ps i)) (S \<union> set xs) (fold (uniqueStep tf ps) xs s)"
proof (induction xs arbitrary: S s)
  case Nil
  then show ?case by simp
next
  case (Cons x xs)
  from table_inv_step[OF Cons.prems, of x] Cons.IH[of "insert x S" "uniqueStep tf ps x s"]
  show ?case by simp
qed

lemma table_inv_uniqueLoop:
  "table_inv (\<lambda>i. vertexKey tf 6 (getXYZ ps i)) {..<position_count ps} (uniqueLoop tf ps)"
proof -
  have "table_inv (\<lambda>i. vertexKey tf 6 (getXYZ ps i)) {} (Map.empty, [])"
    by (simp add: table_inv_def)
  from table_inv_fold[OF this, of "[0..<position_count ps]"]
  show ?thesis by (simp add: uniqueLoop_def atLeast0LessThan)
qed

lemma reverseStep_lookup:
  "reverseStep tf ps m x rm0 b =
     (if filedUnder tf ps m x = Some b
      then Some ((case rm0 b of None \<Rightarrow> [] | Some g \<Rightarrow> g) @ [x])
      else rm0 b)"
  by (auto simp: reverseStep_def filedUnder_def Let_def split: option.splits)

lemma reverse_fold:
  "fold (reverseStep tf ps m) xs rm0 b =
     (if [i\<leftarrow>xs. filedUnder tf ps m i = Some b] = [] then rm0 b
      else Some ((case rm0 b of None \<Rightarrow> [] | Some g \<Rightarrow> g) @ [i\<leftarrow>xs. filedUnder tf ps m i = Some b]))"
proof (induction xs arbitrary: rm0)
  case Nil
  then show ?case by simp
next
  case (Cons x xs)
  have "fold (reverseStep tf ps m) (x # xs) rm0 b = fold (reverseStep tf ps m) xs (reverseStep tf ps m x rm0) b"
    by simp
  also have "\<dots> = (if [i\<leftarrow>xs. filedUnder tf ps m i = Some b] = [] then reverseStep tf ps m x rm0 b
      else Some ((case reverseStep tf ps m x rm0 b of None \<Rightarrow> [] | Some g \<Rightarrow> g) @ [i\<leftarrow>xs. filedUnder tf ps m i = Some b]))"
    by (rule Cons.IH)
  finally have eq: "fold (reverseStep tf ps m) (x # xs) rm0 b =
      (if [i\<leftarrow>xs. filedUnder tf ps m i = Some b] = [] then reverseStep tf ps m x rm0 b
      else Some ((case reverseStep tf ps m x rm0 b of None \<Rightarrow> [] | Some g \<Rightarrow> g) @ [i\<leftarrow>xs. filedUnder tf ps m i = Some b]))" .
  have v: "reverseStep tf ps m x rm0 b =
     (if filedUnder tf ps m x = Some b
      then Some ((case rm0 b of None \<Rightarrow> [] | Some g \<Rightarrow> g) @ [x])
      else rm0 b)"
    by (rule reverseStep_lookup)
  show ?case
    unfolding eq v by (simp split: option.splits)
qed

lemma reverseLoop_lookup:
  "reverseLoop tf ps m b =
     (if [i\<leftarrow>[0..<position_count ps]. filedUnder tf ps m i = Some b] = [] then None
      else Some [i\<leftarrow>[0..<position_count ps]. filedUnder tf ps m i = Some b])"
  by (simp add: reverseLoop_def reverse_fold)

lemma sum_bucket_lengths:
  fixes f :: "nat \<Rightarrow> int option"
  shows "(\<Sum>c<N. length [i\<leftarrow>xs. f i = Some (int c)]) = length [i\<leftarrow>xs. \<exists>c<N. f i = Some (int c)]"
proof (induction xs)
  case Nil
  then show ?case by simp
next
  case (Cons x xs)
  have one: "(\<Sum>c<N. if f x = Some (int c) then 1 else 0) = (if \<exists>c<N. f x = Some (int c) then 1 else (0::nat))"
  proof (cases "\<exists>c<N. f x = Some (int c)")
    case True
    then obtain c0 where c0: "c0 < N" "f x = Some (int c0)" by blast
    have "(\<Sum>c<N. if f x = Some (int c) then 1 else 0) = (\<Sum>c<N. if c0 = c then 1 else (0::nat))"
      using c0 by (intro sum.cong) auto
    also have "\<dots> = 1" using c0 by simp
    finally show ?thesis using True by simp
  next
    case False
    then show ?thesis by auto
  qed
  have "(\<Sum>c<N. length [i\<leftarrow>x # xs. f i = Some (int c)]) =
        (\<Sum>c<N. (if f x = Some (int c) then 1 else 0) + length [i\<leftarrow>xs. f i = Some (int c)])"
    by (intro sum.cong) auto
  also have "\<dots> = (\<Sum>c<N. if f x = Some (int c) then 1 else 0) + (\<Sum>c<N. length [i\<leftarrow>xs. f i = Some (int c)])"
    by (simp add: sum.distrib)
  finally show ?case using one Cons.IH by simp
qed

lemma forward_total:
  assumes "i < position_count ps"
  shows "\<exists>c<length (snd (uniqueLoop tf ps)). forwardMap tf ps i = Some c"
proof -
  let ?K = "\<lambda>i. vertexKey tf 6 (getXYZ ps i)"
  obtain m arr where u: "uniqueLoop tf ps = (m, arr)" by (cases "uniqueLoop tf ps")
  from table_inv_uniqueLoop[of tf ps] u
  have d: "dom m = ?K ` {..<position_count ps}" and r: "ran m = {..<length arr}"
    by (auto simp: table_inv_def)
  from assms d have "?K i \<in> dom m" by blast
  then obtain c where c: "m (?K i) = Some c" by blast
  then have "c \<in> ran m" by (auto simp: ran_def)
  with r c u show ?thesis by (auto simp: forwardMap_def)
qed

lemma forward_onto:
  assumes "c < length (snd (uniqueLoop tf ps))"
  shows "\<exists>i<position_count ps. forwardMap tf ps i = Some c"
proof -
  let ?K = "\<lambda>i. vertexKey tf 6 (getXYZ ps i)"
  obtain m arr where u: "uniqueLoop tf ps = (m, arr)" by (cases "uniqueLoop tf ps")
  from table_inv_uniqueLoop[of tf ps] u
  have d: "dom m = ?K ` {..<position_count ps}" and r: "ran m = {..<length arr}"
    by (auto simp: table_inv_def)
  from assms r u have "c \<in> ran m" by simp
  then obtain k where k: "m k = Some c" by (auto simp: ran_def)
  then have "k \<in> dom m" by blast
  with d obtain i where "i < position_count ps" "k = ?K i" by auto
  with k u show ?thesis by (auto simp: forwardMap_def)
qed

lemma filedUnder_forward:
  "filedUnder tf ps (fst (uniqueLoop tf ps)) i = map_option int (forwardMap tf ps i)"
  by (simp add: filedUnder_def forwardMap_def)

text \<open>
  C5. For every raw vertex buffer the forward map is total: every raw index \<open>i\<close> has one
  canonical index \<open>c\<close> below the number of unique vertices, and the reverse-map entry of
  \<open>c\<close> contains \<open>i\<close>. Every canonical index has a non-empty reverse-map entry, and the
  lengths of the reverse-map entries add up to the raw vertex count.
\<close>

theorem canonicalization_maps:
  fixes toFixed :: "'f \<Rightarrow> nat \<Rightarrow> string" and positions :: "'f list"
  defines "uniqueVertices \<equiv> fst (uniqueLoop toFixed positions)"
      and "vertexArray \<equiv> snd (uniqueLoop toFixed positions)"
  defines "reverseMapping \<equiv> reverseLoop toFixed positions uniqueVertices"
  shows "(\<forall>i<position_count positions. \<exists>c<length vertexArray.
            forwardMap toFixed positions i = Some c \<and>
            (\<exists>geo. reverseMapping (int c) = Some geo \<and> i \<in> set geo))
       \<and> (\<forall>c<length vertexArray. \<exists>geo. reverseMapping (int c) = Some geo \<and> geo \<noteq> [])
       \<and> (\<Sum>c<length vertexArray. case reverseMapping (int c) of None \<Rightarrow> 0 | Some geo \<Rightarrow> length geo)
           = position_count positions"
proof -
  let ?n = "position_count positions"
  let ?F = "filedUnder toFixed positions uniqueVertices"
  have F: "?F i = map_option int (forwardMap toFixed positions i)" for i
    unfolding uniqueVertices_def by (rule filedUnder_forward)
  have rm: "reverseMapping b =
      (if [i\<leftarrow>[0..<?n]. ?F i = Some b] = [] then None else Some [i\<leftarrow>[0..<?n]. ?F i = Some b])" for b
    unfolding reverseMapping_def by (rule reverseLoop_lookup)
  have mem: "i \<in> set [i\<leftarrow>[0..<?n]. ?F i = Some (int c)]"
    if "i < ?n" "forwardMap toFixed positions i = Some c" for i c
    using that by (simp add: F)
  have 1: "\<forall>i<?n. \<exists>c<length vertexArray.
            forwardMap toFixed positions i = Some c \<and>
            (\<exists>geo. reverseMapping (int c) = Some geo \<and> i \<in> set geo)"
  proof (intro allI impI)
    fix i assume i: "i < ?n"
    from forward_total[OF i, of toFixed] obtain c
      where c: "c < length vertexArray" "forwardMap toFixed positions i = Some c"
      unfolding vertexArray_def by blast
    let ?l = "[i\<leftarrow>[0..<?n]. ?F i = Some (int c)]"
    from mem[OF i c(2)] have in_l: "i \<in> set ?l" .
    then have "?l \<noteq> []" by (rule mem_nonempty)
    then have "reverseMapping (int c) = Some ?l" by (simp add: rm)
    with c in_l show "\<exists>c<length vertexArray.
            forwardMap toFixed positions i = Some c \<and>
            (\<exists>geo. reverseMapping (int c) = Some geo \<and> i \<in> set geo)"
      by blast
  qed
  have 2: "\<forall>c<length vertexArray. \<exists>geo. reverseMapping (int c) = Some geo \<and> geo \<noteq> []"
  proof (intro allI impI)
    fix c assume "c < length vertexArray"
    then obtain i where i: "i < ?n" "forwardMap toFixed positions i = Some c"
      unfolding vertexArray_def using forward_onto[of c toFixed positions] by blast
    let ?l = "[i\<leftarrow>[0..<?n]. ?F i = Some (int c)]"
    from mem[OF i] have "?l \<noteq> []" by (rule mem_nonempty)
    then show "\<exists>geo. reverseMapping (int c) = Some geo \<and> geo \<noteq> []"
      by (simp add: rm)
  qed
  have len: "(case reverseMapping (int c) of None \<Rightarrow> 0 | Some geo \<Rightarrow> length geo) =
        length [i\<leftarrow>[0..<?n]. ?F i = Some (int c)]" for c
    by (simp add: rm)
  have all: "[i\<leftarrow>[0..<?n]. \<exists>c<length vertexArray. ?F i = Some (int c)] = [0..<?n]"
  proof (rule filter_True, clarify)
    fix i assume "i \<in> set [0..<?n]"
    then have "i < ?n" by simp
    from forward_total[OF this, of toFixed]
    show "\<exists>c<length vertexArray. ?F i = Some (int c)"
      unfolding vertexArray_def by (auto simp: F)
  qed
  have 3: "(\<Sum>c<length vertexArray. case reverseMapping (int c) of None \<Rightarrow> 0 | Some geo \<Rightarrow> length geo) = ?n"
    by (simp only: len sum_bucket_lengths all) simp
  from 1 2 3 show ?thesis by blast
qed

lemma uniqueLoop_seam:
  "uniqueLoop toFixedRat seamPositions =
     ([''0.000000,0.000000,0.000000'' \<mapsto> 0, ''1.000000,0.000000,0.000000'' \<mapsto> 1],
      [(0, 0, 0), (1, 0, 0)])"
  by (simp add: uniqueLoop_def seamPositions_def position_count_def upt_3 uniqueStep_def
      getXYZ_def vertexKey_def toFixed6_0 toFixed6_1)

theorem canonicalization_maps_witness:
  "position_count seamPositions = 3 \<and> length (snd (uniqueLoop toFixedRat seamPositions)) = 2 \<and>
   (\<exists>c<2. forwardMap toFixedRat seamPositions 2 = Some c \<and>
      (\<exists>geo. reverseLoop toFixedRat seamPositions (fst (uniqueLoop toFixedRat seamPositions)) (int c)
                = Some geo \<and> 2 \<in> set geo)) \<and>
   (\<Sum>c<2. case reverseLoop toFixedRat seamPositions (fst (uniqueLoop toFixedRat seamPositions)) (int c)
             of None \<Rightarrow> 0 | Some geo \<Rightarrow> length geo) = (3::nat)"
proof -
  have n: "position_count seamPositions = 3"
    by (simp add: position_count_def seamPositions_def)
  have l: "length (snd (uniqueLoop toFixedRat seamPositions)) = 2"
    by (simp add: uniqueLoop_seam)
  from canonicalization_maps [of seamPositions toFixedRat] show ?thesis
    unfolding n l by (simp add: n l)
qed

section \<open>Region expansion\<close>

lemma expand_fold:
  "fold (expandStep rm) idxs acc = acc @ concat (map (\<lambda>b. case rm b of None \<Rightarrow> [] | Some g \<Rightarrow> g) idxs)"
  by (induction idxs arbitrary: acc) (simp_all add: expandStep_def split: option.splits)

lemma expandRegion_concat:
  "expandRegion rm idxs = concat (map (\<lambda>b. case rm b of None \<Rightarrow> [] | Some g \<Rightarrow> g) idxs)"
  by (simp add: expandRegion_def expand_fold)

lemma count_list_concat:
  "count_list (concat xss) x = sum_list (map (\<lambda>xs. count_list xs x) xss)"
  by (induction xss) simp_all

lemma count_list_filter_upt:
  "count_list [i\<leftarrow>[0..<n]. P i] x = (if x < n \<and> P x then 1 else 0)"
  by (induction n) auto

lemma sum_list_indicator:
  "sum_list (map (\<lambda>b. if a = b then 1 else 0) xs) = count_list xs a"
  by (induction xs) auto

lemma reverseLoop_bucket:
  "(case reverseLoop tf ps m b of None \<Rightarrow> [] | Some g \<Rightarrow> g) =
     [i\<leftarrow>[0..<position_count ps]. filedUnder tf ps m i = Some b]"
  by (simp add: reverseLoop_lookup)

lemma expand_count:
  assumes "i < position_count ps" and "forwardMap tf ps i = Some c"
  shows "count_list (expandRegion (reverseLoop tf ps (fst (uniqueLoop tf ps))) idxs) i = count_list idxs (int c)"
proof -
  have "count_list (expandRegion (reverseLoop tf ps (fst (uniqueLoop tf ps))) idxs) i =
        sum_list (map (\<lambda>b. if int c = b then 1 else 0) idxs)"
    using assms
    by (simp add: expandRegion_concat count_list_concat comp_def reverseLoop_bucket
        count_list_filter_upt filedUnder_forward)
  then show ?thesis by (simp only: sum_list_indicator)
qed

lemma mapRegion_indices:
  "mapRegion rm cnt r = Inr m \<Longrightarrow> b_vertex_indices r = Some idxs \<Longrightarrow>
   vertex_indices m = expandRegion rm idxs"
  by (auto simp: mapRegion_def Let_def)

lemma mapRegions_Inr:
  "mapRegions rm cnt rs = Inr mapped \<Longrightarrow>
   length mapped = length rs \<and> (\<forall>k<length rs. mapRegion rm cnt (rs ! k) = Inr (mapped ! k))"
proof (induction rs arbitrary: mapped)
  case Nil
  then show ?case by simp
next
  case (Cons r rs)
  from Cons.prems obtain m ms where m: "mapRegion rm cnt r = Inr m"
    and ms: "mapRegions rm cnt rs = Inr ms" and mapped: "mapped = m # ms"
    by (auto split: sum.splits)
  from Cons.IH[OF ms] m mapped show ?case
    by (auto simp: nth_Cons split: nat.splits)
qed

lemma segmentWithBackend_Inr:
  assumes "segmentWithBackend tf fetch ps = Inr mapped"
  shows "\<exists>response data backendRegions.
           fetch (snd (uniqueLoop tf ps)) = Resolved response \<and> ok response \<and>
           json response = Inr data \<and> success data \<and> resp_regions data = Some backendRegions \<and>
           mapRegions (reverseLoop tf ps (fst (uniqueLoop tf ps))) (position_count ps) backendRegions
             = Inr mapped"
proof -
  obtain uv va where u: "uniqueLoop tf ps = (uv, va)" by (cases "uniqueLoop tf ps")
  from assms u obtain response where r: "fetch va = Resolved response"
    by (cases "fetch va") (simp_all add: segmentWithBackend_def)
  from assms u r have okr: "ok response"
    by (cases "ok response") (simp_all add: segmentWithBackend_def)
  from assms u r okr obtain data where d: "json response = Inr data"
    by (cases "json response") (simp_all add: segmentWithBackend_def)
  from assms u r okr d have sd: "success data"
    by (cases "success data") (simp_all add: segmentWithBackend_def)
  from assms u r okr d sd obtain backendRegions where b: "resp_regions data = Some backendRegions"
    by (cases "resp_regions data") (simp_all add: segmentWithBackend_def)
  from assms u r okr d sd b
  have "mapRegions (reverseLoop tf ps uv) (position_count ps) backendRegions = Inr mapped"
    by (simp add: segmentWithBackend_def)
  with u r okr d sd b show ?thesis by simp
qed

text \<open>
  C1 (amended). When \<open>segmentWithBackend\<close> succeeds, a raw index \<open>i\<close> whose canonical
  index is \<open>c\<close> occurs in the expanded list of region \<open>k\<close> exactly as many times as \<open>c\<close>
  occurs in the list the service sent for that region: once when \<open>c\<close> is listed once,
  twice when it is listed twice.
\<close>

theorem expansion_multiplicity:
  assumes "segmentWithBackend toFixed fetch positions = Inr mappedRegions"
      and "fetch (snd (uniqueLoop toFixed positions)) = Resolved response"
      and "json response = Inr data"
      and "resp_regions data = Some backendRegions"
      and "k < length backendRegions"
      and "b_vertex_indices (backendRegions ! k) = Some backendIndices"
      and "i < position_count positions"
      and "forwardMap toFixed positions i = Some c"
  shows "count_list (vertex_indices (mappedRegions ! k)) i = count_list backendIndices (int c)"
proof -
  let ?rm = "reverseLoop toFixed positions (fst (uniqueLoop toFixed positions))"
  from segmentWithBackend_Inr[OF assms(1)] assms(2,3,4)
  have "mapRegions ?rm (position_count positions) backendRegions = Inr mappedRegions"
    by auto
  from mapRegions_Inr[OF this] assms(5)
  have "mapRegion ?rm (position_count positions) (backendRegions ! k) = Inr (mappedRegions ! k)"
    by blast
  from mapRegion_indices[OF this assms(6)]
  have "vertex_indices (mappedRegions ! k) = expandRegion ?rm backendIndices" .
  with expand_count[OF assms(7,8)] show ?thesis by simp
qed

lemma reverseLoop_seam_0:
  "reverseLoop toFixedRat seamPositions (fst (uniqueLoop toFixedRat seamPositions)) 0 = Some [0, 2]"
  by (simp add: uniqueLoop_seam)
     (simp add: reverseLoop_def seamPositions_def position_count_def upt_3 reverseStep_def
        getXYZ_def vertexKey_def toFixed6_0 toFixed6_1)

lemma reverseLoop_seam_1:
  "reverseLoop toFixedRat seamPositions (fst (uniqueLoop toFixedRat seamPositions)) 1 = Some [1]"
  by (simp add: uniqueLoop_seam)
     (simp add: reverseLoop_def seamPositions_def position_count_def upt_3 reverseStep_def
        getXYZ_def vertexKey_def toFixed6_0 toFixed6_1)

lemma segment_seam:
  "segmentWithBackend toFixedRat seamFetch seamPositions =
     Inr [\<lparr> region_id = Some ''base'', region_name = Some ''Base'', color = Some ''#8B4513'',
            visible = False, vertex_indices = [0, 2, 0, 2, 1], vertex_count = 5,
            vertex_percentage = Percentage 5 3 \<rparr>]"
proof -
  have n: "position_count seamPositions = 3"
    by (simp add: position_count_def seamPositions_def)
  show ?thesis
    unfolding segmentWithBackend_def
    by (simp add: uniqueLoop_seam seamFetch_def Let_def mapRegion_def expandRegion_def expandStep_def n
        reverseLoop_seam_0[unfolded uniqueLoop_seam, simplified]
        reverseLoop_seam_1[unfolded uniqueLoop_seam, simplified])
qed

lemma forwardMap_seam_2: "forwardMap toFixedRat seamPositions 2 = Some 0"
  by (simp add: forwardMap_def uniqueLoop_seam)
     (simp add: seamPositions_def getXYZ_def vertexKey_def toFixed6_0 toFixed6_1)

theorem expansion_multiplicity_witness:
  "segmentWithBackend toFixedRat seamFetch seamPositions =
     Inr [\<lparr> region_id = Some ''base'', region_name = Some ''Base'', color = Some ''#8B4513'',
            visible = False, vertex_indices = [0, 2, 0, 2, 1], vertex_count = 5,
            vertex_percentage = Percentage 5 3 \<rparr>]
   \<and> forwardMap toFixedRat seamPositions 2 = Some 0
   \<and> count_list [0, 2, 0, 2, 1] (2::nat) = count_list [0, 0, 1] (0::int)"
proof -
  let ?region = "\<lparr> b_id = Some ''base'', b_name = Some ''Base'', b_color = Some ''#8B4513'',
                   b_visible = False, b_vertex_indices = Some [0, 0, 1] \<rparr>"
  let ?data = "\<lparr> success = True, resp_regions = Some [?region], resp_error = None \<rparr>"
  let ?response = "\<lparr> ok = True, statusText = ''OK'', json = Inr ?data \<rparr>"
  have f: "seamFetch (snd (uniqueLoop toFixedRat seamPositions)) = Resolved ?response"
    by (simp add: seamFetch_def)
  have n: "2 < position_count seamPositions"
    by (simp add: position_count_def seamPositions_def)
  from expansion_multiplicity [OF segment_seam f, of ?data "[?region]" 0 "[0, 0, 1]" 2 0]
    n forwardMap_seam_2
  have "count_list [0, 2, 0, 2, 1] (2::nat) = count_list [0, 0, 1] (int 0)"
    by simp
  with segment_seam forwardMap_seam_2 show ?thesis by simp
qed

text \<open>
  C1 as stated fails: the service lists canonical index 0 twice, its reverse-map entry is
  \<open>[0, 2]\<close>, and raw index 2 occurs twice in the expanded list.
\<close>

theorem expansion_duplicates_counterexample:
  "segmentWithBackend toFixedRat seamFetch seamPositions =
     Inr [\<lparr> region_id = Some ''base'', region_name = Some ''Base'', color = Some ''#8B4513'',
            visible = False, vertex_indices = [0, 2, 0, 2, 1], vertex_count = 5,
            vertex_percentage = Percentage 5 3 \<rparr>]
   \<and> reverseLoop toFixedRat seamPositions (fst (uniqueLoop toFixedRat seamPositions)) 0 = Some [0, 2]
   \<and> count_list [0, 2, 0, 2, 1] (2::nat) = 2"
  using segment_seam reverseLoop_seam_0 by simp

section \<open>The colour compositor\<close>

lemma length_setRGB [simp]: "length (setRGB cs idx c) = length cs"
  by (cases c) (simp add: setRGB_def)

lemma setRGB_nth:
  assumes "k < 3" and "i * 3 + k < length cs"
  shows "setRGB cs idx c ! (i * 3 + k) = (if idx = i then channel k c else cs ! (i * 3 + k))"
proof -
  obtain r g b where c: "c = (r, g, b)" by (cases c)
  have ne: "idx \<noteq> i \<Longrightarrow> idx * 3 + a \<noteq> i * 3 + k" if "a < 3" for a
    using that assms(1) by presburger
  from assms(1) consider "k = 0" | "k = 1" | "k = 2" by linarith
  then show ?thesis
  proof cases
    case 1
    with assms c ne[of 0] ne[of 1] ne[of 2] show ?thesis
      by (auto simp: setRGB_def channel_def nth_list_update)
  next
    case 2
    with assms c ne[of 0] ne[of 1] ne[of 2] show ?thesis
      by (auto simp: setRGB_def channel_def nth_list_update)
  next
    case 3
    with assms c ne[of 0] ne[of 1] ne[of 2] show ?thesis
      by (auto simp: setRGB_def channel_def nth_list_update)
  qed
qed

lemma length_fill_fold [simp]:
  "length (fold (\<lambda>i colors. setRGB colors i c) xs cs) = length cs"
  by (induction xs arbitrary: cs) simp_all

lemma length_fillDefault [simp]: "length (fillDefault n c) = n * 3"
  by (simp add: fillDefault_def)

lemma fill_fold_nth:
  assumes "k < 3" and "i * 3 + k < length cs"
  shows "fold (\<lambda>j colors. setRGB colors j c) xs cs ! (i * 3 + k) =
           (if i \<in> set xs then channel k c else cs ! (i * 3 + k))"
  using assms
proof (induction xs arbitrary: cs)
  case Nil
  then show ?case by simp
next
  case (Cons x xs)
  have "fold (\<lambda>j colors. setRGB colors j c) (x # xs) cs ! (i * 3 + k) =
        fold (\<lambda>j colors. setRGB colors j c) xs (setRGB cs x c) ! (i * 3 + k)"
    by simp
  also have "\<dots> = (if i \<in> set xs then channel k c else setRGB cs x c ! (i * 3 + k))"
    using Cons.prems by (intro Cons.IH) simp_all
  also have "\<dots> = (if i \<in> set (x # xs) then channel k c else cs ! (i * 3 + k))"
    using Cons.prems by (auto simp: setRGB_nth)
  finally show ?case .
qed

lemma fillDefault_nth:
  assumes "i < n" and "k < 3"
  shows "fillDefault n c ! (i * 3 + k) = channel k c"
proof -
  from assms have "i * 3 + k < n * 3" by linarith
  then show ?thesis
    unfolding fillDefault_def using assms by (subst fill_fold_nth) simp_all
qed

lemma length_paintIndices [simp]: "length (paintIndices n c idxs cs) = length cs"
  unfolding paintIndices_def by (induction idxs arbitrary: cs) simp_all

lemma paintIndices_nth:
  assumes "i < n" and "k < 3" and "length cs = n * 3"
  shows "paintIndices n c idxs cs ! (i * 3 + k) =
           (if i \<in> set idxs then channel k c else cs ! (i * 3 + k))"
  using assms(3)
proof (induction idxs arbitrary: cs)
  case Nil
  then show ?case by (simp add: paintIndices_def)
next
  case (Cons x xs)
  let ?cs = "if x < n then setRGB cs x c else cs"
  from assms(1,2) Cons.prems have b: "i * 3 + k < length cs" by linarith
  have "paintIndices n c (x # xs) cs ! (i * 3 + k) = paintIndices n c xs ?cs ! (i * 3 + k)"
    by (simp add: paintIndices_def)
  also have "\<dots> = (if i \<in> set xs then channel k c else ?cs ! (i * 3 + k))"
    using Cons.prems by (intro Cons.IH) simp
  also have "\<dots> = (if i \<in> set (x # xs) then channel k c else cs ! (i * 3 + k))"
    using assms(1,2) b by (auto simp: setRGB_nth)
  finally show ?case .
qed

lemma length_paintRegion [simp]: "length (paintRegion tc n pc r cs) = length cs"
  by (simp add: paintRegion_def)

lemma paintRegion_nth:
  assumes "i < n" and "k < 3" and "length cs = n * 3"
  shows "paintRegion tc n pc r cs ! (i * 3 + k) =
           (if visible r \<and> i \<in> set (vertex_indices r)
            then channel k (tc (colorHex pc r))
            else cs ! (i * 3 + k))"
  using assms by (simp add: paintRegion_def paintIndices_nth)

lemma length_fold_paintRegion [simp]: "length (fold (paintRegion tc n pc) rs cs) = length cs"
  by (induction rs arbitrary: cs) simp_all

lemma lastPainter_snoc:
  "lastPainter (rs @ [r]) i =
     (if visible r \<and> i \<in> set (vertex_indices r) then Some r else lastPainter rs i)"
  by (simp add: lastPainter_def Let_def)

lemma fold_paintRegion_nth:
  assumes "i < n" and "k < 3" and "length cs = n * 3"
  shows "fold (paintRegion tc n pc) rs cs ! (i * 3 + k) =
           (case lastPainter rs i of
              None \<Rightarrow> cs ! (i * 3 + k)
            | Some r \<Rightarrow> channel k (tc (colorHex pc r)))"
proof (induction rs rule: rev_induct)
  case Nil
  then show ?case by (simp add: lastPainter_def)
next
  case (snoc r rs)
  have "fold (paintRegion tc n pc) (rs @ [r]) cs ! (i * 3 + k) =
        paintRegion tc n pc r (fold (paintRegion tc n pc) rs cs) ! (i * 3 + k)"
    by simp
  also have "\<dots> = (if visible r \<and> i \<in> set (vertex_indices r)
            then channel k (tc (colorHex pc r))
            else fold (paintRegion tc n pc) rs cs ! (i * 3 + k))"
    using assms by (intro paintRegion_nth) simp_all
  finally show ?case
    by (simp add: snoc.IH lastPainter_snoc)
qed

text \<open>
  The compositor of App.tsx. Its buffer has three entries per raw vertex. The entries of
  raw index \<open>i\<close> are the components of the default colour when no visible region lists
  \<open>i\<close>; otherwise they are the components of the colour that line 344 resolves for the
  last visible region, in list order, that lists \<open>i\<close>. Invisible regions change nothing.
\<close>

lemma compositor_last_wins:
  fixes threeColor :: "color_arg \<Rightarrow> 'c::zero vec3"
  assumes "i < vertexCount" and "k < 3"
  shows "length (composeColors threeColor vertexCount rs overrides) = vertexCount * 3
       \<and> composeColors threeColor vertexCount rs overrides ! (i * 3 + k) =
           channel k (case lastPainter rs i of
                        None \<Rightarrow> threeColor (Hex 0x808080)
                      | Some r \<Rightarrow> threeColor (colorHex overrides r))"
proof -
  have "composeColors threeColor vertexCount rs overrides ! (i * 3 + k) =
          (case lastPainter rs i of
             None \<Rightarrow> fillDefault vertexCount (threeColor (Hex 0x808080)) ! (i * 3 + k)
           | Some r \<Rightarrow> channel k (threeColor (colorHex overrides r)))"
    unfolding composeColors_def using assms by (intro fold_paintRegion_nth) simp_all
  then show ?thesis
    using assms by (simp add: composeColors_def fillDefault_nth split: option.splits)
qed

lemma hexDigit_eval:
  "hexDigit CHR ''0'' = Some 0" "hexDigit CHR ''1'' = Some 1" "hexDigit CHR ''2'' = Some 2"
  "hexDigit CHR ''3'' = Some 3" "hexDigit CHR ''4'' = Some 4" "hexDigit CHR ''5'' = Some 5"
  "hexDigit CHR ''6'' = Some 6" "hexDigit CHR ''7'' = Some 7" "hexDigit CHR ''8'' = Some 8"
  "hexDigit CHR ''9'' = Some 9" "hexDigit CHR ''A'' = Some 10" "hexDigit CHR ''B'' = Some 11"
  "hexDigit CHR ''C'' = Some 12" "hexDigit CHR ''D'' = Some 13" "hexDigit CHR ''E'' = Some 14"
  "hexDigit CHR ''F'' = Some 15"
  by (simp_all add: hexDigit_def)

lemma color_8B4513: "threeColorRat (Style ''#8B4513'') = (139 / 255, 69 / 255, 19 / 255)"
  by (simp add: threeColorRat_def hexDigit_eval setHex_def)

lemma color_FFD700: "threeColorRat (Style ''#FFD700'') = (1, 215 / 255, 0)"
  by (simp add: threeColorRat_def hexDigit_eval setHex_def)

lemma color_808080: "threeColorRat (Hex 0x808080) = (128 / 255, 128 / 255, 128 / 255)"
  by (simp add: threeColorRat_def setHex_def)

lemma fillDefault_3: "fillDefault 3 (r, g, b) = [r, g, b, r, g, b, r, g, b]"
  by (simp add: fillDefault_def upt_3 setRGB_def replicate_numeral_eval)

lemma lastPainter_example: "lastPainter [regionA, regionB] 1 = Some regionB"
  by (simp add: lastPainter_def regionA_def regionB_def)

text \<open>
  Line 344 resolves the override when one is stored, the base colour otherwise, provided
  no stored override is the empty string and the id of the region is not the name of a
  property of \<^verbatim>\<open>Object.prototype\<close> that no stored override hides.
\<close>

lemma colorHex_override_or_base:
  assumes "\<forall>key c. overrides key = Some c \<longrightarrow> c \<noteq> []"
      and "overrides (propertyKey (region_id r)) \<noteq> None \<or> propertyKey (region_id r) \<notin> set objectPrototype"
  shows "colorHex overrides r =
           (case overrides (propertyKey (region_id r)) of
              Some c \<Rightarrow> Style c
            | None \<Rightarrow> colorArg (color r))"
  using assms by (auto simp: colorHex_def getProperty_def split: option.splits)

text \<open>
  No stored override is the empty string: the hook starts empty, \<^verbatim>\<open>resetColors\<close> and a
  successful upload empty it, and the palette stores one of its twelve colours.
\<close>

lemma overrides_nonempty:
  fixes st :: "('f, 'c) AppState"
  assumes "\<forall>key c. paintedColors st key = Some c \<longrightarrow> c \<noteq> []"
  shows "\<forall>key c. paintedColors (initialState :: ('f, 'c) AppState) key = Some c \<longrightarrow> c \<noteq> []"
    and "\<forall>key c. paintedColors (resetColors st) key = Some c \<longrightarrow> c \<noteq> []"
    and "\<forall>key c. paintedColors (toggleRegionVisibility regionId st) key = Some c \<longrightarrow> c \<noteq> []"
    and "clickColor col st = Some st' \<Longrightarrow> \<forall>key c. paintedColors st' key = Some c \<longrightarrow> c \<noteq> []"
proof -
  show "\<forall>key c. paintedColors (initialState :: ('f, 'c) AppState) key = Some c \<longrightarrow> c \<noteq> []"
    by (simp add: initialState_def)
  show "\<forall>key c. paintedColors (resetColors st) key = Some c \<longrightarrow> c \<noteq> []"
    by (simp add: resetColors_def)
  show "\<forall>key c. paintedColors (toggleRegionVisibility regionId st) key = Some c \<longrightarrow> c \<noteq> []"
    using assms by (simp add: toggleRegionVisibility_def)
  show "\<forall>key c. paintedColors st' key = Some c \<longrightarrow> c \<noteq> []" if "clickColor col st = Some st'"
  proof -
    from that obtain r where r: "selectedRegion st = Some r" "col \<in> set PAINT_COLORS"
      and st': "st' = handleColorSelect (Some r) col (st\<lparr> selectedColor := col \<rparr>)"
      by (auto simp: clickColor_def split: option.splits if_splits)
    from r(2) have "col \<noteq> []" by (auto simp: PAINT_COLORS_def)
    with assms show ?thesis by (simp add: st' handleColorSelect_def)
  qed
qed

lemma overrides_nonempty_upload:
  fixes st :: "(float32, 'c::zero) AppState"
  assumes "\<forall>key c. paintedColors st key = Some c \<longrightarrow> c \<noteq> []"
  shows "\<forall>key c. paintedColors (handleFileUpload tf cs tc fetch files st) key = Some c \<longrightarrow> c \<noteq> []"
proof (cases files)
  case None
  with assms show ?thesis by (simp add: handleFileUpload_def)
next
  case (Some f)
  show ?thesis
  proof (cases "uploadPipeline tf cs fetch f")
    case (Inl e)
    with Some assms show ?thesis
      by (simp add: handleFileUpload_def uploadSettle_def uploadStart_def)
  next
    case (Inr r)
    obtain g rs where "r = (g, rs)" by (cases r)
    with Inr Some show ?thesis
      by (simp add: handleFileUpload_def uploadSettle_def uploadStart_def Let_def)
  qed
qed

lemma compositor_last_wins_example:
  "composeColors threeColorRat 3 [regionA, regionB] [''legs'' \<mapsto> ''#FFD700''] ! (1 * 3 + 1) = 215 / 255
   \<and> lastPainter [regionA, regionB] 1 = Some regionB"
proof -
  have c: "colorHex [''legs'' \<mapsto> ''#FFD700''] regionB = Style ''#FFD700''"
    by (simp add: colorHex_def getProperty_def regionB_def propertyKey_def)
  have a: "(1::nat) < 3" by simp
  note w = compositor_last_wins [OF a a, of threeColorRat "[regionA, regionB]" "[''legs'' \<mapsto> ''#FFD700'']",
      THEN conjunct2]
  from w a lastPainter_example show ?thesis
    unfolding lastPainter_example by (simp add: c color_FFD700 channel_def)
qed

text \<open>
  A region whose id is \<^verbatim>\<open>constructor\<close>, with no override stored: line 344 reads the
  inherited function, and the region is painted white, not in its base colour.
\<close>

lemma compositor_inherited_id:
  "composeColors threeColorRat 3 [regionA\<lparr> region_id := Some ''constructor'' \<rparr>] Map.empty =
     [1, 1, 1, 1, 1, 1, 128 / 255, 128 / 255, 128 / 255]
   \<and> threeColorRat (colorArg (color regionA)) = (139 / 255, 69 / 255, 19 / 255)"
proof -
  let ?r = "regionA\<lparr> region_id := Some ''constructor'' \<rparr>"
  have h: "colorHex Map.empty ?r = Inherited ''constructor''"
    by (simp add: colorHex_def getProperty_def objectPrototype_def propertyKey_def)
  have w: "threeColorRat (Inherited ''constructor'') = (1, 1, 1)"
    by (simp add: threeColorRat_def)
  have r: "visible ?r" "vertex_indices ?r = [0, 1]"
    by (simp_all add: regionA_def)
  have base: "threeColorRat (colorArg (color regionA)) = (139 / 255, 69 / 255, 19 / 255)"
    by (simp add: regionA_def colorArg_def color_8B4513)
  have "composeColors threeColorRat 3 [?r] Map.empty = [1, 1, 1, 1, 1, 1, 128 / 255, 128 / 255, 128 / 255]"
    by (simp add: composeColors_def color_808080 fillDefault_3 paintRegion_def h w r
        paintIndices_def setRGB_def)
  with base show ?thesis by simp
qed

lemma applyColors_buffer:
  assumes "modelData s = Some m" and "meshRef s"
  shows "colorBuffer (applyColorsToGeometry tc s) =
           Some (composeColors tc (position_count (position (model_geometry m))) (regions s) (paintedColors s))"
  using assms by (simp add: applyColorsToGeometry_def colorBuffer_def Let_def)

lemma applyColors_idem:
  "applyColorsToGeometry tc (applyColorsToGeometry tc s) = applyColorsToGeometry tc s"
  by (cases "modelData s") (simp_all add: applyColorsToGeometry_def Let_def)

lemma simplePaintRegion_known:
  assumes "propertyKey (b_id r) \<in> dom regionColorMap"
  shows "simplePaintRegion tf tc random1 va u r s = simplePaintRegion tf tc random2 va u r s"
proof -
  from assms obtain c where "regionColorMap (propertyKey (b_id r)) = Some c" by blast
  then show ?thesis
    by (cases s) (simp add: simplePaintRegion_def getProperty_def)
qed

lemma foldE_known:
  assumes "\<forall>r\<in>set rs. propertyKey (b_id r) \<in> dom regionColorMap"
  shows "foldE (simplePaintRegion tf tc random1 va u) rs s = foldE (simplePaintRegion tf tc random2 va u) rs s"
  using assms
proof (induction rs arbitrary: s)
  case Nil
  then show ?case by simp
next
  case (Cons r rs)
  from Cons.prems have k: "propertyKey (b_id r) \<in> dom regionColorMap"
    and rest: "\<forall>r\<in>set rs. propertyKey (b_id r) \<in> dom regionColorMap" by simp_all
  have step: "simplePaintRegion tf tc random1 va u r s = simplePaintRegion tf tc random2 va u r s"
    by (rule simplePaintRegion_known[OF k])
  show ?case
    by (cases "simplePaintRegion tf tc random2 va u r s")
       (simp_all add: step bindE_def Cons.IH[OF rest])
qed

text \<open>
  C6 (amended). The buffer that \<open>applyColorsToGeometry\<close> attaches depends only on the raw
  vertex count, the region list and the overrides: two states that agree on these get
  the same buffer whatever buffer they held before, and composing twice gives what
  composing once gives. The colouring step of SimpleApp.tsx gives the same buffer for any
  two runs of \<^verbatim>\<open>Math.random\<close> when every region id is one of the five ids of its
  colour table. (For an id that is neither one of these nor the name of a property of
  \<^verbatim>\<open>Object.prototype\<close> the colour is drawn from \<^verbatim>\<open>Math.random\<close>; the example further
  down has two runs that differ.)
\<close>

theorem compositor_deterministic:
  fixes threeColor :: "color_arg \<Rightarrow> 'c::zero vec3"
    and s1 :: "('f, 'c) AppState" and s2 :: "('g, 'c) AppState"
  assumes "modelData s1 = Some m1" and "modelData s2 = Some m2"
      and "meshRef s1" and "meshRef s2"
      and "position_count (position (model_geometry m1)) = position_count (position (model_geometry m2))"
      and "regions s1 = regions s2"
      and "paintedColors s1 = paintedColors s2"
      and "\<forall>r\<in>set dataRegions. propertyKey (b_id r) \<in> dom regionColorMap"
  shows "colorBuffer (applyColorsToGeometry threeColor s1) = colorBuffer (applyColorsToGeometry threeColor s2)
       \<and> applyColorsToGeometry threeColor (applyColorsToGeometry threeColor s1)
           = applyColorsToGeometry threeColor s1
       \<and> simpleColors toFixed threeColor random1 vertArray vertices dataRegions
           = simpleColors toFixed threeColor random2 vertArray vertices dataRegions"
proof -
  have fold_eq: "foldE (simplePaintRegion toFixed threeColor random1 vertArray u) dataRegions s =
                 foldE (simplePaintRegion toFixed threeColor random2 vertArray u) dataRegions s" for u s
    by (rule foldE_known[OF assms(8)])
  have legacy: "simpleColors toFixed threeColor random1 vertArray vertices dataRegions
           = simpleColors toFixed threeColor random2 vertArray vertices dataRegions"
    by (simp add: simpleColors_def fold_eq)
  have buffers: "colorBuffer (applyColorsToGeometry threeColor s1) = colorBuffer (applyColorsToGeometry threeColor s2)"
    using assms(1-7) by (simp add: applyColors_buffer)
  from buffers legacy show ?thesis
    by (simp add: applyColors_idem)
qed

section \<open>The decoders\<close>

lemma getFloat32_ok: "off + 4 \<le> length view \<Longrightarrow> getFloat32 view off = Inr (float32Bits view off)"
  by (simp add: getFloat32_def)

lemma getFloat32_fail: "length view < off + 4 \<Longrightarrow> getFloat32 view off = Inl outOfBounds"
  by (simp add: getFloat32_def outOfBounds_def)

lemma quietNaN_examples:
  "quietNaN 0x7F800001 = 0x7FC00001" "quietNaN 0x3F800000 = 0x3F800000" "quietNaN 0x7F800000 = 0x7F800000"
  by (simp_all add: quietNaN_def)

lemma readCorners_ok:
  "off + 12 * j \<le> length view \<Longrightarrow>
   \<exists>vs' ns'. readCorners view n j (off, vi, vs, ns) = Inr (off + 12 * j, vi + 3 * j, vs', ns')
            \<and> length vs' = length vs \<and> length ns' = length ns"
proof (induction j arbitrary: off vi vs ns)
  case 0
  then show ?case by simp
next
  case (Suc j)
  obtain nx ny nz where n: "n = (nx, ny, nz)" by (cases n)
  let ?x = "float32Bits view off :: float32"
  let ?y = "float32Bits view (off + 4) :: float32"
  let ?z = "float32Bits view (off + 8) :: float32"
  let ?vs = "vs[vi := ?x, vi + 1 := ?y, vi + 2 := ?z]"
  let ?ns = "ns[vi := nx, vi + 1 := ny, vi + 2 := nz]"
  from Suc.prems have r: "getFloat32 view off = Inr ?x"
    "getFloat32 view (off + 4) = Inr ?y" "getFloat32 view (off + 8) = Inr ?z"
    by (simp_all add: getFloat32_ok)
  from Suc.prems have "(off + 12) + 12 * j \<le> length view" by simp
  from Suc.IH[OF this, of "vi + 3" ?vs ?ns]
  obtain vs' ns' where t: "readCorners view n j (off + 12, vi + 3, ?vs, ?ns) = Inr (off + 12 + 12 * j, vi + 3 + 3 * j, vs', ns')"
    and l: "length vs' = length ?vs" "length ns' = length ?ns"
    by blast
  have "readCorners view n (Suc j) (off, vi, vs, ns) = readCorners view n j (off + 12, vi + 3, ?vs, ?ns)"
    by (simp add: r n)
  with t l show ?case by (simp add: add.assoc)
qed

lemma readCorners_fail:
  "j \<noteq> 0 \<Longrightarrow> length view < off + 12 * j \<Longrightarrow>
   readCorners view n j (off, vi, vs, ns) = Inl outOfBounds"
proof (induction j arbitrary: off vi vs ns)
  case 0
  then show ?case by simp
next
  case (Suc j)
  obtain nx ny nz where n: "n = (nx, ny, nz)" by (cases n)
  show ?case
  proof (cases "off + 12 \<le> length view")
    case True
    then have r: "getFloat32 view off = Inr (float32Bits view off)"
      "getFloat32 view (off + 4) = Inr (float32Bits view (off + 4))"
      "getFloat32 view (off + 8) = Inr (float32Bits view (off + 8))"
      by (simp_all add: getFloat32_ok)
    from True Suc.prems have "j \<noteq> 0" "length view < (off + 12) + 12 * j" by auto
    from Suc.IH[OF this] show ?thesis by (simp add: r n)
  next
    case False
    then consider "length view < off + 4" | "off + 4 \<le> length view" "length view < off + 8"
      | "off + 8 \<le> length view" "length view < off + 12" by linarith
    then show ?thesis
    proof cases
      case 1
      then show ?thesis by (simp add: getFloat32_fail)
    next
      case 2
      then show ?thesis by (simp add: getFloat32_fail getFloat32_ok)
    next
      case 3
      then show ?thesis by (simp add: getFloat32_fail getFloat32_ok)
    qed
  qed
qed

lemma readTriangles_ok:
  "k = 0 \<or> off + 50 * k \<le> length view + 2 \<Longrightarrow>
   \<exists>vs' ns'. readTriangles view k (off, vi, vs, ns) = Inr (off + 50 * k, vi + 9 * k, vs', ns')
            \<and> length vs' = length vs \<and> length ns' = length ns"
proof (induction k arbitrary: off vi vs ns)
  case 0
  then show ?case by simp
next
  case (Suc k)
  then have b: "off + 48 \<le> length view" by simp
  then have r: "getFloat32 view off = Inr (float32Bits view off)"
    "getFloat32 view (off + 4) = Inr (float32Bits view (off + 4))"
    "getFloat32 view (off + 8) = Inr (float32Bits view (off + 8))"
    by (simp_all add: getFloat32_ok)
  from b have "off + 12 + 12 * 3 \<le> length view" by simp
  from readCorners_ok[OF this]
  obtain vs1 ns1 where c: "readCorners view (float32Bits view off, float32Bits view (off + 4),
        float32Bits view (off + 8)) 3 (off + 12, vi, vs, ns) = Inr (off + 12 + 12 * 3, vi + 3 * 3, vs1, ns1)"
    and l1: "length vs1 = length vs" "length ns1 = length ns"
    by blast
  from Suc.prems have "k = 0 \<or> (off + 50) + 50 * k \<le> length view + 2" by auto
  from Suc.IH[OF this, of "vi + 9" vs1 ns1]
  obtain vs' ns' where t: "readTriangles view k (off + 50, vi + 9, vs1, ns1) = Inr (off + 50 + 50 * k, vi + 9 + 9 * k, vs', ns')"
    and l2: "length vs' = length vs1" "length ns' = length ns1"
    by blast
  have "readTriangles view (Suc k) (off, vi, vs, ns) = readTriangles view k (off + 50, vi + 9, vs1, ns1)"
    using c by (simp add: r add.commute)
  with t l1 l2 show ?case by (simp add: add.assoc)
qed

lemma readTriangles_fail:
  "k \<noteq> 0 \<Longrightarrow> length view + 2 < off + 50 * k \<Longrightarrow>
   readTriangles view k (off, vi, vs, ns) = Inl outOfBounds"
proof (induction k arbitrary: off vi vs ns)
  case 0
  then show ?case by simp
next
  case (Suc k)
  show ?case
  proof (cases "off + 48 \<le> length view")
    case True
    then have r: "getFloat32 view off = Inr (float32Bits view off)"
      "getFloat32 view (off + 4) = Inr (float32Bits view (off + 4))"
      "getFloat32 view (off + 8) = Inr (float32Bits view (off + 8))"
      by (simp_all add: getFloat32_ok)
    from True have "off + 12 + 12 * 3 \<le> length view" by simp
    from readCorners_ok[OF this]
    obtain vs1 ns1 where c: "readCorners view (float32Bits view off, float32Bits view (off + 4),
          float32Bits view (off + 8)) 3 (off + 12, vi, vs, ns) = Inr (off + 12 + 12 * 3, vi + 3 * 3, vs1, ns1)"
      by blast
    from True Suc.prems have k: "k \<noteq> 0" "length view + 2 < (off + 50) + 50 * k" by auto
    have "readTriangles view (Suc k) (off, vi, vs, ns) = readTriangles view k (off + 50, vi + 9, vs1, ns1)"
      using c by (simp add: r add.commute)
    with Suc.IH[OF k] show ?thesis by simp
  next
    case False
    then consider "length view < off + 4" | "off + 4 \<le> length view" "length view < off + 8"
      | "off + 8 \<le> length view" "length view < off + 12"
      | "off + 12 \<le> length view" "length view < off + 12 + 12 * 3" by linarith
    then show ?thesis
    proof cases
      case 1
      then show ?thesis by (simp add: getFloat32_fail)
    next
      case 2
      then show ?thesis by (simp add: getFloat32_fail getFloat32_ok)
    next
      case 3
      then show ?thesis by (simp add: getFloat32_fail getFloat32_ok)
    next
      case 4
      then have "getFloat32 view off = Inr (float32Bits view off)"
        "getFloat32 view (off + 4) = Inr (float32Bits view (off + 4))"
        "getFloat32 view (off + 8) = Inr (float32Bits view (off + 8))"
        by (simp_all add: getFloat32_ok)
      moreover from 4 have "readCorners view n 3 (off + 12, vi, vs, ns) = Inl outOfBounds" for n
        by (intro readCorners_fail) simp_all
      ultimately show ?thesis by simp
    qed
  qed
qed


lemma readCornersSimple_ok:
  "off + 12 * j \<le> length view \<Longrightarrow>
   \<exists>vs'. readCornersSimple view j (off, vi, vs) = Inr (off + 12 * j, vi + 3 * j, vs')
            \<and> length vs' = length vs"
proof (induction j arbitrary: off vi vs)
  case 0
  then show ?case by simp
next
  case (Suc j)
  let ?x = "float32Bits view off :: float32"
  let ?y = "float32Bits view (off + 4) :: float32"
  let ?z = "float32Bits view (off + 8) :: float32"
  let ?vs = "vs[vi := ?x, vi + 1 := ?y, vi + 2 := ?z]"
  from Suc.prems have r: "getFloat32 view off = Inr ?x"
    "getFloat32 view (off + 4) = Inr ?y" "getFloat32 view (off + 8) = Inr ?z"
    by (simp_all add: getFloat32_ok)
  from Suc.prems have "(off + 12) + 12 * j \<le> length view" by simp
  from Suc.IH[OF this, of "vi + 3" ?vs]
  obtain vs' where t: "readCornersSimple view j (off + 12, vi + 3, ?vs) = Inr (off + 12 + 12 * j, vi + 3 + 3 * j, vs')"
    and l: "length vs' = length ?vs"
    by blast
  have "readCornersSimple view (Suc j) (off, vi, vs) = readCornersSimple view j (off + 12, vi + 3, ?vs)"
    by (simp add: r)
  with t l show ?case by (simp add: add.assoc)
qed

lemma readCornersSimple_fail:
  "j \<noteq> 0 \<Longrightarrow> length view < off + 12 * j \<Longrightarrow>
   readCornersSimple view j (off, vi, vs) = Inl outOfBounds"
proof (induction j arbitrary: off vi vs)
  case 0
  then show ?case by simp
next
  case (Suc j)
  show ?case
  proof (cases "off + 12 \<le> length view")
    case True
    then have r: "getFloat32 view off = Inr (float32Bits view off)"
      "getFloat32 view (off + 4) = Inr (float32Bits view (off + 4))"
      "getFloat32 view (off + 8) = Inr (float32Bits view (off + 8))"
      by (simp_all add: getFloat32_ok)
    from True Suc.prems have "j \<noteq> 0" "length view < (off + 12) + 12 * j" by auto
    from Suc.IH[OF this] show ?thesis by (simp add: r)
  next
    case False
    then consider "length view < off + 4" | "off + 4 \<le> length view" "length view < off + 8"
      | "off + 8 \<le> length view" "length view < off + 12" by linarith
    then show ?thesis
    proof cases
      case 1
      then show ?thesis by (simp add: getFloat32_fail)
    next
      case 2
      then show ?thesis by (simp add: getFloat32_fail getFloat32_ok)
    next
      case 3
      then show ?thesis by (simp add: getFloat32_fail getFloat32_ok)
    qed
  qed
qed

lemma readTrianglesSimple_ok:
  "k = 0 \<or> off + 50 * k \<le> length view + 2 \<Longrightarrow>
   \<exists>vs'. readTrianglesSimple view k (off, vi, vs) = Inr (off + 50 * k, vi + 9 * k, vs')
            \<and> length vs' = length vs"
proof (induction k arbitrary: off vi vs)
  case 0
  then show ?case by simp
next
  case (Suc k)
  then have "(off + 12) + 12 * 3 \<le> length view" by simp
  from readCornersSimple_ok[OF this]
  obtain vs1 where c: "readCornersSimple view 3 (off + 12, vi, vs) = Inr (off + 12 + 12 * 3, vi + 3 * 3, vs1)"
    and l1: "length vs1 = length vs"
    by blast
  from Suc.prems have "k = 0 \<or> (off + 50) + 50 * k \<le> length view + 2" by auto
  from Suc.IH[OF this, of "vi + 9" vs1]
  obtain vs' where t: "readTrianglesSimple view k (off + 50, vi + 9, vs1) = Inr (off + 50 + 50 * k, vi + 9 + 9 * k, vs')"
    and l2: "length vs' = length vs1"
    by blast
  have "readTrianglesSimple view (Suc k) (off, vi, vs) = readTrianglesSimple view k (off + 50, vi + 9, vs1)"
    using c by (simp add: add.commute)
  with t l1 l2 show ?case by (simp add: add.assoc)
qed

lemma readTrianglesSimple_fail:
  "k \<noteq> 0 \<Longrightarrow> length view + 2 < off + 50 * k \<Longrightarrow>
   readTrianglesSimple view k (off, vi, vs) = Inl outOfBounds"
proof (induction k arbitrary: off vi vs)
  case 0
  then show ?case by simp
next
  case (Suc k)
  show ?case
  proof (cases "off + 48 \<le> length view")
    case True
    then have "(off + 12) + 12 * 3 \<le> length view" by simp
    from readCornersSimple_ok[OF this]
    obtain vs1 where c: "readCornersSimple view 3 (off + 12, vi, vs) = Inr (off + 12 + 12 * 3, vi + 3 * 3, vs1)"
      by blast
    from True Suc.prems have k: "k \<noteq> 0" "length view + 2 < (off + 50) + 50 * k" by auto
    have "readTrianglesSimple view (Suc k) (off, vi, vs) = readTrianglesSimple view k (off + 50, vi + 9, vs1)"
      using c by (simp add: add.commute)
    with Suc.IH[OF k] show ?thesis by simp
  next
    case False
    then have "readCornersSimple view 3 (off + 12, vi, vs) = Inl outOfBounds"
      by (intro readCornersSimple_fail) simp_all
    then show ?thesis by simp
  qed
qed

lemma update3_nth:
  assumes "vi + 3 \<le> length vs" and "p < length vs"
  shows "vs[vi := x, vi + 1 := y, vi + 2 := z] ! p =
           (if p = vi then x else if p = vi + 1 then y else if p = vi + 2 then z else vs ! p)"
  using assms by (auto simp: nth_list_update)

lemma readCorners_content:
  assumes "off + 12 * j \<le> length view" and "vi + 3 * j \<le> length vs" and "length ns = length vs"
  shows "\<exists>vs' ns'. readCorners view n j (off, vi, vs, ns) = Inr (off + 12 * j, vi + 3 * j, vs', ns')
            \<and> length vs' = length vs \<and> length ns' = length ns
            \<and> (\<forall>p<length vs. vs' ! p =
                   (if vi \<le> p \<and> p < vi + 3 * j then float32Bits view (off + 4 * (p - vi)) else vs ! p))
            \<and> (\<forall>p<length vs. ns' ! p =
                   (if vi \<le> p \<and> p < vi + 3 * j then channel ((p - vi) mod 3) n else ns ! p))"
  using assms
proof (induction j arbitrary: off vi vs ns)
  case 0
  then show ?case by auto
next
  case (Suc j)
  obtain nx ny nz where n: "n = (nx, ny, nz)" by (cases n)
  let ?x = "float32Bits view off :: float32"
  let ?y = "float32Bits view (off + 4) :: float32"
  let ?z = "float32Bits view (off + 8) :: float32"
  let ?vs = "vs[vi := ?x, vi + 1 := ?y, vi + 2 := ?z]"
  let ?ns = "ns[vi := nx, vi + 1 := ny, vi + 2 := nz]"
  from Suc.prems have r: "getFloat32 view off = Inr ?x"
    "getFloat32 view (off + 4) = Inr ?y" "getFloat32 view (off + 8) = Inr ?z"
    by (simp_all add: getFloat32_ok)
  from Suc.prems have a: "(off + 12) + 12 * j \<le> length view" "(vi + 3) + 3 * j \<le> length ?vs"
    "length ?ns = length ?vs" by simp_all
  from Suc.IH[OF a]
  obtain vs' ns' where t: "readCorners view n j (off + 12, vi + 3, ?vs, ?ns) = Inr (off + 12 + 12 * j, vi + 3 + 3 * j, vs', ns')"
    and l: "length vs' = length ?vs" "length ns' = length ?ns"
    and cv: "\<forall>p<length ?vs. vs' ! p =
                   (if vi + 3 \<le> p \<and> p < vi + 3 + 3 * j then float32Bits view (off + 12 + 4 * (p - (vi + 3))) else ?vs ! p)"
    and cn: "\<forall>p<length ?vs. ns' ! p =
                   (if vi + 3 \<le> p \<and> p < vi + 3 + 3 * j then channel ((p - (vi + 3)) mod 3) n else ?ns ! p)"
    by blast
  have run: "readCorners view n (Suc j) (off, vi, vs, ns) = readCorners view n j (off + 12, vi + 3, ?vs, ?ns)"
    by (simp add: r n)
  from Suc.prems have b: "vi + 3 \<le> length vs" "vi + 3 \<le> length ns" by simp_all
  have v: "vs' ! p = (if vi \<le> p \<and> p < vi + 3 * Suc j then float32Bits view (off + 4 * (p - vi)) else vs ! p)"
    if p: "p < length vs" for p
  proof -
    from p cv have e: "vs' ! p =
        (if vi + 3 \<le> p \<and> p < vi + 3 + 3 * j then float32Bits view (off + 12 + 4 * (p - (vi + 3))) else ?vs ! p)"
      by simp
    have u: "?vs ! p = (if p = vi then ?x else if p = vi + 1 then ?y else if p = vi + 2 then ?z else vs ! p)"
      using b(1) p by (rule update3_nth)
    consider "p < vi" | "p = vi" | "p = vi + 1" | "p = vi + 2" | "vi + 3 \<le> p" by linarith
    then show ?thesis
    proof cases
      case 1
      then show ?thesis unfolding e u by simp
    next
      case 2
      then show ?thesis unfolding e u by simp
    next
      case 3
      then show ?thesis unfolding e u by simp
    next
      case 4
      then show ?thesis unfolding e u by simp
    next
      case 5
      then have eq: "off + 12 + 4 * (p - (vi + 3)) = off + 4 * (p - vi)" by simp
      from 5 show ?thesis unfolding e u eq by simp
    qed
  qed
  have w: "ns' ! p = (if vi \<le> p \<and> p < vi + 3 * Suc j then channel ((p - vi) mod 3) n else ns ! p)"
    if p: "p < length vs" for p
  proof -
    from p cn have e: "ns' ! p =
        (if vi + 3 \<le> p \<and> p < vi + 3 + 3 * j then channel ((p - (vi + 3)) mod 3) n else ?ns ! p)"
      by simp
    from p Suc.prems(3) have pn: "p < length ns" by simp
    have u: "?ns ! p = (if p = vi then nx else if p = vi + 1 then ny else if p = vi + 2 then nz else ns ! p)"
      using b(2) pn by (rule update3_nth)
    consider "p < vi" | "p = vi" | "p = vi + 1" | "p = vi + 2" | "vi + 3 \<le> p" by linarith
    then show ?thesis
    proof cases
      case 1
      then show ?thesis unfolding e u by simp
    next
      case 2
      then show ?thesis unfolding e u by (simp add: channel_def n)
    next
      case 3
      then show ?thesis unfolding e u by (simp add: channel_def n)
    next
      case 4
      then show ?thesis unfolding e u by (simp add: channel_def n)
    next
      case 5
      then obtain q where q: "p = vi + 3 + q" using le_Suc_ex by blast
      have eq: "(p - (vi + 3)) mod 3 = (p - vi) mod 3"
        unfolding q by simp
      from 5 show ?thesis unfolding e u eq by simp
    qed
  qed
  from run t l v w show ?case by (simp add: add.assoc)
qed


lemma channel_offsets:
  "c < 3 \<Longrightarrow> channel c (f off, f (off + 4), f (off + 8)) = f (off + 4 * c)"
  by (cases "c = 0"; cases "c = 1"; cases "c = 2") (simp_all add: channel_def)

lemma readTriangles_content:
  assumes "k = 0 \<or> off + 50 * k \<le> length view + 2" and "vi + 9 * k \<le> length vs"
      and "length ns = length vs"
  shows "\<exists>vs' ns'. readTriangles view k (off, vi, vs, ns) = Inr (off + 50 * k, vi + 9 * k, vs', ns')
            \<and> length vs' = length vs \<and> length ns' = length ns
            \<and> (\<forall>p<length vs. vs' ! p =
                   (if vi \<le> p \<and> p < vi + 9 * k
                    then float32Bits view (off + 50 * ((p - vi) div 9) + 12 + 4 * ((p - vi) mod 9))
                    else vs ! p))
            \<and> (\<forall>p<length vs. ns' ! p =
                   (if vi \<le> p \<and> p < vi + 9 * k
                    then float32Bits view (off + 50 * ((p - vi) div 9) + 4 * ((p - vi) mod 3))
                    else ns ! p))"
  using assms
proof (induction k arbitrary: off vi vs ns)
  case 0
  then show ?case by auto
next
  case (Suc k)
  let ?f = "\<lambda>a. float32Bits view a :: float32"
  let ?n = "(?f off, ?f (off + 4), ?f (off + 8))"
  from Suc.prems have b: "off + 48 \<le> length view" by simp
  then have r: "getFloat32 view off = Inr (?f off)"
    "getFloat32 view (off + 4) = Inr (?f (off + 4))"
    "getFloat32 view (off + 8) = Inr (?f (off + 8))"
    by (simp_all add: getFloat32_ok)
  from b Suc.prems have a1: "(off + 12) + 12 * 3 \<le> length view" "vi + 3 * 3 \<le> length vs"
    "length ns = length vs" by simp_all
  from readCorners_content[OF a1, of ?n]
  obtain vs1 ns1 where c: "readCorners view ?n 3 (off + 12, vi, vs, ns) = Inr (off + 12 + 12 * 3, vi + 3 * 3, vs1, ns1)"
    and l1: "length vs1 = length vs" "length ns1 = length ns"
    and cv1: "\<forall>p<length vs. vs1 ! p =
                (if vi \<le> p \<and> p < vi + 3 * 3 then ?f (off + 12 + 4 * (p - vi)) else vs ! p)"
    and cn1: "\<forall>p<length vs. ns1 ! p =
                (if vi \<le> p \<and> p < vi + 3 * 3 then channel ((p - vi) mod 3) ?n else ns ! p)"
    by blast
  from Suc.prems l1 have a2: "k = 0 \<or> (off + 50) + 50 * k \<le> length view + 2"
    "(vi + 9) + 9 * k \<le> length vs1" "length ns1 = length vs1" by auto
  from Suc.IH[OF a2]
  obtain vs' ns' where t: "readTriangles view k (off + 50, vi + 9, vs1, ns1) = Inr (off + 50 + 50 * k, vi + 9 + 9 * k, vs', ns')"
    and l2: "length vs' = length vs1" "length ns' = length ns1"
    and cv2: "\<forall>p<length vs1. vs' ! p =
                (if vi + 9 \<le> p \<and> p < vi + 9 + 9 * k
                 then ?f (off + 50 + 50 * ((p - (vi + 9)) div 9) + 12 + 4 * ((p - (vi + 9)) mod 9))
                 else vs1 ! p)"
    and cn2: "\<forall>p<length vs1. ns' ! p =
                (if vi + 9 \<le> p \<and> p < vi + 9 + 9 * k
                 then ?f (off + 50 + 50 * ((p - (vi + 9)) div 9) + 4 * ((p - (vi + 9)) mod 3))
                 else ns1 ! p)"
    by blast
  have run: "readTriangles view (Suc k) (off, vi, vs, ns) = readTriangles view k (off + 50, vi + 9, vs1, ns1)"
    using c by (simp add: r add.commute)
  have v: "vs' ! p = (if vi \<le> p \<and> p < vi + 9 * Suc k
                    then ?f (off + 50 * ((p - vi) div 9) + 12 + 4 * ((p - vi) mod 9))
                    else vs ! p)" if p: "p < length vs" for p
  proof -
    from p l1 cv2 have e2: "vs' ! p =
                (if vi + 9 \<le> p \<and> p < vi + 9 + 9 * k
                 then ?f (off + 50 + 50 * ((p - (vi + 9)) div 9) + 12 + 4 * ((p - (vi + 9)) mod 9))
                 else vs1 ! p)" by simp
    from p cv1 have e1: "vs1 ! p =
                (if vi \<le> p \<and> p < vi + 3 * 3 then ?f (off + 12 + 4 * (p - vi)) else vs ! p)" by simp
    consider "p < vi" | "vi \<le> p" "p < vi + 9" | "vi + 9 \<le> p" by linarith
    then show ?thesis
    proof cases
      case 1
      then show ?thesis unfolding e2 e1 by simp
    next
      case 2
      then obtain q where q: "p = vi + q" "q < 9" using le_Suc_ex by (metis nat_add_left_cancel_less)
      from e2 e1 q(2) show ?thesis unfolding q(1) by simp
    next
      case 3
      then obtain q where q: "p = vi + 9 + q" using le_Suc_ex by blast
      have d: "(9 + q) div 9 = Suc (q div 9)" "(9 + q) mod 9 = q mod 9" by simp_all
      from e2 e1 show ?thesis unfolding q by (simp add: add.assoc d)
    qed
  qed
  have w: "ns' ! p = (if vi \<le> p \<and> p < vi + 9 * Suc k
                    then ?f (off + 50 * ((p - vi) div 9) + 4 * ((p - vi) mod 3))
                    else ns ! p)" if p: "p < length vs" for p
  proof -
    from p l1 cn2 have e2: "ns' ! p =
                (if vi + 9 \<le> p \<and> p < vi + 9 + 9 * k
                 then ?f (off + 50 + 50 * ((p - (vi + 9)) div 9) + 4 * ((p - (vi + 9)) mod 3))
                 else ns1 ! p)" by simp
    from p cn1 have e1: "ns1 ! p =
                (if vi \<le> p \<and> p < vi + 3 * 3 then channel ((p - vi) mod 3) ?n else ns ! p)" by simp
    have ch: "channel ((p - vi) mod 3) ?n = ?f (off + 4 * ((p - vi) mod 3))"
      by (rule channel_offsets) simp
    consider "p < vi" | "vi \<le> p" "p < vi + 9" | "vi + 9 \<le> p" by linarith
    then show ?thesis
    proof cases
      case 1
      then show ?thesis unfolding e2 e1 by simp
    next
      case 2
      then obtain q where q: "p = vi + q" "q < 9" using le_Suc_ex by (metis nat_add_left_cancel_less)
      from e2 e1 ch q(2) show ?thesis unfolding q(1) by simp
    next
      case 3
      then obtain q where q: "p = vi + 9 + q" using le_Suc_ex by blast
      have d: "(9 + q) div 9 = Suc (q div 9)" "(9 + q) mod 3 = q mod 3" by presburger+
      from e2 e1 show ?thesis unfolding q by (simp add: add.assoc d)
    qed
  qed
  from run t l1 l2 v w show ?case by (simp add: add.assoc)
qed


lemma readCorners_simple:
  "readCorners view n j (off, vi, vs, ns) = Inr (off', vi', vs', ns') \<Longrightarrow>
   readCornersSimple view j (off, vi, vs) = Inr (off', vi', vs')"
proof (induction j arbitrary: off vi vs ns)
  case 0
  then show ?case by simp
next
  case (Suc j)
  obtain nx ny nz where n: "n = (nx, ny, nz)" by (cases n)
  from Suc.prems obtain x where x: "getFloat32 view off = Inr x"
    by (cases "getFloat32 view off") (simp_all add: n)
  from Suc.prems x obtain y where y: "getFloat32 view (off + 4) = Inr y"
    by (cases "getFloat32 view (off + 4)") (simp_all add: n)
  from Suc.prems x y obtain z where z: "getFloat32 view (off + 8) = Inr z"
    by (cases "getFloat32 view (off + 8)") (simp_all add: n)
  from Suc.prems have "readCorners view n j (off + 12, vi + 3, vs[vi := x, vi + 1 := y, vi + 2 := z],
      ns[vi := nx, vi + 1 := ny, vi + 2 := nz]) = Inr (off', vi', vs', ns')"
    by (simp add: x y z n)
  from Suc.IH[OF this] show ?case by (simp add: x y z)
qed

lemma readTriangles_simple:
  "readTriangles view k (off, vi, vs, ns) = Inr (off', vi', vs', ns') \<Longrightarrow>
   readTrianglesSimple view k (off, vi, vs) = Inr (off', vi', vs')"
proof (induction k arbitrary: off vi vs ns)
  case 0
  then show ?case by simp
next
  case (Suc k)
  from Suc.prems obtain nx where nx: "getFloat32 view off = Inr nx"
    by (cases "getFloat32 view off") simp_all
  from Suc.prems nx obtain ny where ny: "getFloat32 view (off + 4) = Inr ny"
    by (cases "getFloat32 view (off + 4)") simp_all
  from Suc.prems nx ny obtain nz where nz: "getFloat32 view (off + 8) = Inr nz"
    by (cases "getFloat32 view (off + 8)") simp_all
  from Suc.prems nx ny nz obtain o1 v1 vs1 ns1
    where c: "readCorners view (nx, ny, nz) 3 (off + 12, vi, vs, ns) = Inr (o1, v1, vs1, ns1)"
    by (cases "readCorners view (nx, ny, nz) 3 (off + 12, vi, vs, ns)") auto
  from Suc.prems have "readTriangles view k (o1 + 2, v1, vs1, ns1) = Inr (off', vi', vs', ns')"
    by (simp add: nx ny nz c)
  from Suc.IH[OF this] readCorners_simple[OF c] show ?case by simp
qed

lemma getUint32_80: "getUint32 view 80 = (if 84 \<le> length view then Inr (le32 view 80) else Inl outOfBounds)"
  by (simp add: getUint32_def outOfBounds_def)

text \<open>
  C3 (amended). With \<open>n\<close> the unsigned little-endian 32-bit number at offset 80:
  \<open>parseSTL\<close> fails with the format error when the buffer starts with the five bytes
  \<^verbatim>\<open>solid\<close>; otherwise it fails with a \<^verbatim>\<open>RangeError\<close> when the buffer has fewer than 84
  bytes or \<open>n\<close> is positive and the buffer has fewer than \<open>84 + 50 n - 2\<close> bytes;
  otherwise it returns vertex and normal buffers of \<open>9 n\<close> floats each: entry \<open>p\<close> of the
  vertex buffer is the float at offset \<open>84 + 50 (p div 9) + 12 + 4 (p mod 9)\<close>, entry \<open>p\<close> of
  the normal buffer the float at offset \<open>84 + 50 (p div 9) + 4 (p mod 3)\<close>, each with the
  bit pattern it has in the file, a signalling NaN made quiet. The decoder of
  SimpleApp.tsx has no signature check, the same bounds and the same vertex buffer.
\<close>

theorem parseSTL_outcomes:
  fixes view :: "byte list"
  defines "n \<equiv> le32 view 80"
  shows "(5 \<le> length view \<and> map unat (take 5 view) = solid \<longrightarrow>
            parseSTL view = Inl (Error ''ASCII STL not supported yet. Please use binary STL.''))
       \<and> (map unat (take 5 view) \<noteq> solid \<and> (length view < 84 \<or> n \<noteq> 0 \<and> length view + 2 < 84 + 50 * n) \<longrightarrow>
            (\<exists>m. parseSTL view = Inl (RangeError m)))
       \<and> (map unat (take 5 view) \<noteq> solid \<and> 84 \<le> length view \<and> (n = 0 \<or> 84 + 50 * n \<le> length view + 2) \<longrightarrow>
            (\<exists>g. parseSTL view = Inr g \<and> length (position g) = n * 9 \<and> length (normal g) = n * 9
                 \<and> color_attr g = None
                 \<and> (\<forall>p<n * 9.
                        position g ! p = float32Bits view (84 + 50 * (p div 9) + 12 + 4 * (p mod 9))
                      \<and> normal g ! p = float32Bits view (84 + 50 * (p div 9) + 4 * (p mod 3)))))
       \<and> (length view < 84 \<or> n \<noteq> 0 \<and> length view + 2 < 84 + 50 * n \<longrightarrow>
            parseSTLSimple view = Inl outOfBounds)
       \<and> (84 \<le> length view \<and> (n = 0 \<or> 84 + 50 * n \<le> length view + 2) \<longrightarrow>
            (\<exists>vertices. parseSTLSimple view = Inr vertices \<and> length vertices = n * 9
                 \<and> (\<forall>p<n * 9.
                        vertices ! p = float32Bits view (84 + 50 * (p div 9) + 12 + 4 * (p mod 9)))))"
proof -
  have decoded: "\<exists>vs' ns'. readTriangles view n (84, 0, replicate (n * 9) 0, replicate (n * 9) 0)
                    = Inr (84 + 50 * n, 0 + 9 * n, vs', ns')
            \<and> length vs' = n * 9 \<and> length ns' = n * 9
            \<and> (\<forall>p<n * 9. vs' ! p = float32Bits view (84 + 50 * (p div 9) + 12 + 4 * (p mod 9)))
            \<and> (\<forall>p<n * 9. ns' ! p = float32Bits view (84 + 50 * (p div 9) + 4 * (p mod 3)))"
    if ok: "n = 0 \<or> 84 + 50 * n \<le> length view + 2"
  proof -
    have "0 + 9 * n \<le> length (replicate (n * 9) (0::float32))"
      "length (replicate (n * 9) (0::float32)) = length (replicate (n * 9) (0::float32))"
      by simp_all
    from readTriangles_content[OF ok this]
    obtain vs' ns' where t: "readTriangles view n (84, 0, replicate (n * 9) 0, replicate (n * 9) 0)
                    = Inr (84 + 50 * n, 0 + 9 * n, vs', ns')"
      and l: "length vs' = length (replicate (n * 9) (0::float32))"
             "length ns' = length (replicate (n * 9) (0::float32))"
      and cv: "\<forall>p<length (replicate (n * 9) (0::float32)). vs' ! p =
                   (if 0 \<le> p \<and> p < 0 + 9 * n
                    then float32Bits view (84 + 50 * ((p - 0) div 9) + 12 + 4 * ((p - 0) mod 9))
                    else replicate (n * 9) 0 ! p)"
      and cn: "\<forall>p<length (replicate (n * 9) (0::float32)). ns' ! p =
                   (if 0 \<le> p \<and> p < 0 + 9 * n
                    then float32Bits view (84 + 50 * ((p - 0) div 9) + 4 * ((p - 0) mod 3))
                    else replicate (n * 9) 0 ! p)"
      by blast
    from cv have "\<forall>p<n * 9. vs' ! p = float32Bits view (84 + 50 * (p div 9) + 12 + 4 * (p mod 9))"
      by (simp add: mult.commute)
    moreover from cn have "\<forall>p<n * 9. ns' ! p = float32Bits view (84 + 50 * (p div 9) + 4 * (p mod 3))"
      by (simp add: mult.commute)
    ultimately show ?thesis using t l by auto
  qed
  show ?thesis
  proof (intro conjI impI)
    assume "5 \<le> length view \<and> map unat (take 5 view) = solid"
    then show "parseSTL view = Inl (Error ''ASCII STL not supported yet. Please use binary STL.'')"
      by (simp add: parseSTL_def)
  next
    assume a: "map unat (take 5 view) \<noteq> solid \<and> (length view < 84 \<or> n \<noteq> 0 \<and> length view + 2 < 84 + 50 * n)"
    show "\<exists>m. parseSTL view = Inl (RangeError m)"
    proof (cases "length view < 84")
      case True
      with a show ?thesis by (auto simp: parseSTL_def getUint32_80 outOfBounds_def)
    next
      case False
      with a have "n \<noteq> 0" "length view + 2 < 84 + 50 * n" by auto
      from readTriangles_fail[OF this]
      have "readTriangles view n (84, 0, replicate (n * 9) 0, replicate (n * 9) 0) = Inl outOfBounds" .
      with a False show ?thesis
        by (simp add: parseSTL_def getUint32_80 outOfBounds_def n_def)
    qed
  next
    assume a: "map unat (take 5 view) \<noteq> solid \<and> 84 \<le> length view \<and> (n = 0 \<or> 84 + 50 * n \<le> length view + 2)"
    then have "n = 0 \<or> 84 + 50 * n \<le> length view + 2" by simp
    from decoded[OF this]
    obtain vs' ns' where "readTriangles view n (84, 0, replicate (n * 9) 0, replicate (n * 9) 0)
         = Inr (84 + 50 * n, 0 + 9 * n, vs', ns')" "length vs' = n * 9" "length ns' = n * 9"
      "\<forall>p<n * 9. vs' ! p = float32Bits view (84 + 50 * (p div 9) + 12 + 4 * (p mod 9))"
      "\<forall>p<n * 9. ns' ! p = float32Bits view (84 + 50 * (p div 9) + 4 * (p mod 3))"
      by blast
    with a show "\<exists>g. parseSTL view = Inr g \<and> length (position g) = n * 9 \<and> length (normal g) = n * 9
                 \<and> color_attr g = None
                 \<and> (\<forall>p<n * 9.
                        position g ! p = float32Bits view (84 + 50 * (p div 9) + 12 + 4 * (p mod 9))
                      \<and> normal g ! p = float32Bits view (84 + 50 * (p div 9) + 4 * (p mod 3)))"
      by (simp add: parseSTL_def getUint32_80 n_def)
  next
    assume a: "length view < 84 \<or> n \<noteq> 0 \<and> length view + 2 < 84 + 50 * n"
    show "parseSTLSimple view = Inl outOfBounds"
    proof (cases "length view < 84")
      case True
      then show ?thesis by (simp add: parseSTLSimple_def getUint32_80)
    next
      case False
      with a have "n \<noteq> 0" "length view + 2 < 84 + 50 * n" by auto
      from readTrianglesSimple_fail[OF this]
      have "readTrianglesSimple view n (84, 0, replicate (n * 9) 0) = Inl outOfBounds" .
      with False show ?thesis
        by (simp add: parseSTLSimple_def getUint32_80 n_def)
    qed
  next
    assume a: "84 \<le> length view \<and> (n = 0 \<or> 84 + 50 * n \<le> length view + 2)"
    then have "n = 0 \<or> 84 + 50 * n \<le> length view + 2" by simp
    from decoded[OF this]
    obtain vs' ns' where t: "readTriangles view n (84, 0, replicate (n * 9) 0, replicate (n * 9) 0)
         = Inr (84 + 50 * n, 0 + 9 * n, vs', ns')" and c: "length vs' = n * 9"
      "\<forall>p<n * 9. vs' ! p = float32Bits view (84 + 50 * (p div 9) + 12 + 4 * (p mod 9))"
      by blast
    from readTriangles_simple[OF t]
    have "readTrianglesSimple view n (84, 0, replicate (n * 9) 0) = Inr (84 + 50 * n, 0 + 9 * n, vs')" .
    with a c show "\<exists>vertices. parseSTLSimple view = Inr vertices \<and> length vertices = n * 9
                 \<and> (\<forall>p<n * 9.
                        vertices ! p = float32Bits view (84 + 50 * (p div 9) + 12 + 4 * (p mod 9)))"
      by (simp add: parseSTLSimple_def getUint32_80 n_def)
  qed
qed

lemma le32_headerOnly: "le32 headerOnlyFile 80 = 1"
  by (simp add: le32_def headerOnlyFile_def nth_append)

lemma le32_emptyMesh: "le32 emptyMeshFile 80 = 0"
  by (simp add: le32_def emptyMeshFile_def)

lemma le32_shortTail_80: "le32 shortTailFile 80 = 1"
  by (simp add: le32_def shortTailFile_def nth_append)

lemma le32_shortTail: "84 \<le> off \<Longrightarrow> off + 4 \<le> 132 \<Longrightarrow> le32 shortTailFile off = 0"
  by (simp add: le32_def shortTailFile_def nth_append)

lemma getFloat32_shortTail:
  "84 \<le> off \<Longrightarrow> off + 4 \<le> 132 \<Longrightarrow> getFloat32 shortTailFile off = Inr 0"
  by (simp add: getFloat32_def float32Bits_def quietNaN_def le32_shortTail) (simp add: shortTailFile_def)

lemma solid_ascii: "map unat (take 5 asciiFile) = solid"
  by (simp add: asciiFile_def solid_def)

lemma zeros_not_solid: "replicate 5 (0::nat) \<noteq> solid"
  by (simp add: solid_def replicate_numeral_eval)

lemma not_solid_zero: "map unat (take 5 (replicate 80 (0::byte) @ rest)) \<noteq> solid"
  by (simp add: solid_def take_Cons' replicate_numeral_eval)

theorem parseSTL_outcomes_witness:
  "parseSTL asciiFile = (Inl (Error ''ASCII STL not supported yet. Please use binary STL.'') :: js_error + (float32, rat) BufferGeometry)
   \<and> (\<exists>m. parseSTL headerOnlyFile = (Inl (RangeError m) :: js_error + (float32, rat) BufferGeometry))
   \<and> (\<exists>g :: (float32, rat) BufferGeometry. parseSTL emptyMeshFile = Inr g \<and> position g = [])
   \<and> parseSTLSimple headerOnlyFile = Inl outOfBounds
   \<and> parseSTLSimple emptyMeshFile = Inr []"
proof -
  have a: "5 \<le> length asciiFile \<and> map unat (take 5 asciiFile) = solid"
    by (simp add: solid_ascii) (simp add: asciiFile_def)
  have h: "map unat (take 5 headerOnlyFile) \<noteq> solid \<and>
           (length headerOnlyFile < 84 \<or> le32 headerOnlyFile 80 \<noteq> 0 \<and> length headerOnlyFile + 2 < 84 + 50 * le32 headerOnlyFile 80)"
    by (simp add: le32_headerOnly) (simp add: headerOnlyFile_def zeros_not_solid)
  have e: "map unat (take 5 emptyMeshFile) \<noteq> solid \<and> 84 \<le> length emptyMeshFile \<and>
           (le32 emptyMeshFile 80 = 0 \<or> 84 + 50 * le32 emptyMeshFile 80 \<le> length emptyMeshFile + 2)"
    by (simp add: le32_emptyMesh) (simp add: emptyMeshFile_def zeros_not_solid)
  from parseSTL_outcomes[of asciiFile] a
  have 1: "parseSTL asciiFile = (Inl (Error ''ASCII STL not supported yet. Please use binary STL.'') :: js_error + (float32, rat) BufferGeometry)"
    by blast
  from parseSTL_outcomes[of headerOnlyFile] h
  have 2: "\<exists>m. parseSTL headerOnlyFile = (Inl (RangeError m) :: js_error + (float32, rat) BufferGeometry)"
    and 4: "parseSTLSimple headerOnlyFile = Inl outOfBounds"
    by blast+
  from parseSTL_outcomes[of emptyMeshFile] e
  have 3: "\<exists>g :: (float32, rat) BufferGeometry. parseSTL emptyMeshFile = Inr g \<and> position g = []"
    and 5: "parseSTLSimple emptyMeshFile = Inr []"
    by (auto simp: le32_emptyMesh)
  from 1 2 3 4 5 show ?thesis by blast
qed

lemma three: "(3::nat) = Suc (Suc (Suc 0))"
  by simp

text \<open>
  C3 as stated fails: the buffer declares one triangle, which takes \<open>84 + 50\<close> bytes, and
  holds 132; the decoder returns the buffers. The two bytes after the last triangle are
  never read.
\<close>

theorem parseSTL_short_tail_counterexample:
  "length shortTailFile = 132 \<and> le32 shortTailFile 80 = 1 \<and> 132 < 84 + 50 * (1::nat)
   \<and> parseSTL shortTailFile =
       Inr (\<lparr> position = [0, 0, 0, 0, 0, 0, 0, 0, 0], normal = [0, 0, 0, 0, 0, 0, 0, 0, 0],
              color_attr = None \<rparr> :: (float32, rat) BufferGeometry)"
proof -
  have len: "length shortTailFile = 132"
    by (simp add: shortTailFile_def)
  have ns: "map unat (take 5 shortTailFile) \<noteq> solid"
    by (simp add: shortTailFile_def zeros_not_solid)
  have u: "getUint32 shortTailFile 80 = Inr 1"
    by (simp add: getUint32_def len le32_shortTail_80)
  have t: "readTriangles shortTailFile (Suc 0) (84, 0, replicate 9 0, replicate 9 0) =
             Inr (134, 9, [0, 0, 0, 0, 0, 0, 0, 0, 0], [0, 0, 0, 0, 0, 0, 0, 0, 0])"
    by (simp add: three getFloat32_shortTail replicate_numeral_eval)
  show ?thesis
    by (simp add: len le32_shortTail_80 parseSTL_def ns u t del: readTriangles.simps)
qed

section \<open>The upload pipeline\<close>

lemma mapRegions_missing_indices:
  "r \<in> set rs \<Longrightarrow> b_vertex_indices r = None \<Longrightarrow>
   mapRegions rm cnt rs = Inl (TypeError ''region.vertex_indices is not iterable'')"
proof (induction rs)
  case Nil
  then show ?case by simp
next
  case (Cons x xs)
  show ?case
  proof (cases "b_vertex_indices x")
    case None
    then show ?thesis by (simp add: mapRegion_def)
  next
    case (Some idxs)
    with Cons.prems have "r \<in> set xs" by auto
    from Cons.IH[OF this Cons.prems(2)] Some show ?thesis
      by (simp add: mapRegion_def Let_def)
  qed
qed

lemma handleFileUpload_failure:
  "uploadPipeline tf cs fetch file = Inl err \<Longrightarrow>
   handleFileUpload tf cs tc fetch (Some file) st = st\<lparr> error := message err, isLoading := False \<rparr>"
  by (simp add: handleFileUpload_def uploadSettle_def uploadStart_def)

lemma segmentWithBackend_failures:
  fixes fetch :: "'f vec3 list \<Rightarrow> fetch_result" and tf :: "'f \<Rightarrow> nat \<Rightarrow> string" and ps :: "'f list"
  defines "va \<equiv> snd (uniqueLoop tf ps)"
  assumes "(\<exists>e. fetch va = Rejected e)
         \<or> (\<exists>response. fetch va = Resolved response \<and>
               (\<not> ok response
                \<or> (\<exists>e. json response = Inl e)
                \<or> (\<exists>data. json response = Inr data \<and>
                      (\<not> success data
                       \<or> resp_regions data = None
                       \<or> (\<exists>rs r. resp_regions data = Some rs \<and> r \<in> set rs \<and> b_vertex_indices r = None)))))"
  shows "\<exists>err. segmentWithBackend tf fetch ps = Inl err"
proof -
  obtain uv where u: "uniqueLoop tf ps = (uv, va)"
    unfolding va_def by (cases "uniqueLoop tf ps") simp
  from assms(2) consider
      e where "fetch va = Rejected e"
    | response where "fetch va = Resolved response" "\<not> ok response"
    | response e where "fetch va = Resolved response" "ok response" "json response = Inl e"
    | response data where "fetch va = Resolved response" "ok response" "json response = Inr data" "\<not> success data"
    | response data where "fetch va = Resolved response" "ok response" "json response = Inr data" "success data"
        "resp_regions data = None"
    | response data rs r where "fetch va = Resolved response" "ok response" "json response = Inr data" "success data"
        "resp_regions data = Some rs" "r \<in> set rs" "b_vertex_indices r = None"
    by (metis (full_types))
  then show ?thesis
  proof cases
    case 1
    with u show ?thesis by (simp add: segmentWithBackend_def)
  next
    case 2
    with u show ?thesis by (simp add: segmentWithBackend_def)
  next
    case 3
    with u show ?thesis by (simp add: segmentWithBackend_def)
  next
    case 4
    with u show ?thesis by (simp add: segmentWithBackend_def)
  next
    case 5
    with u show ?thesis by (simp add: segmentWithBackend_def)
  next
    case 6
    from mapRegions_missing_indices[OF 6(6,7)] 6 u show ?thesis
      by (simp add: segmentWithBackend_def)
  qed
qed

text \<open>
  C4 (amended). When the decoder throws, the request is rejected, the status is not OK,
  the body does not parse, \<^verbatim>\<open>success\<close> is falsy, \<^verbatim>\<open>regions\<close> is missing or a region has
  no \<^verbatim>\<open>vertex_indices\<close>, \<open>handleFileUpload\<close> changes only \<open>error\<close> and \<open>isLoading\<close>:
  the region list, the overrides, the model data and its colour buffer are those of the
  state before the upload.
\<close>

theorem upload_failure_aborts:
  fixes st :: "(float32, 'c::zero) AppState"
    and centerScale :: "(float32, 'c) BufferGeometry \<Rightarrow> (float32, 'c) BufferGeometry"
  assumes "(\<exists>e. parseSTL (arrayBuffer file) = (Inl e :: js_error + (float32, 'c) BufferGeometry))
         \<or> (\<exists>parsed va. parseSTL (arrayBuffer file) = Inr parsed
               \<and> va = snd (uniqueLoop toFixed (position (centerScale parsed)))
               \<and> ((\<exists>e. fetch va = Rejected e)
                  \<or> (\<exists>response. fetch va = Resolved response \<and>
                        (\<not> ok response
                         \<or> (\<exists>e. json response = Inl e)
                         \<or> (\<exists>data. json response = Inr data \<and>
                               (\<not> success data
                                \<or> resp_regions data = None
                                \<or> (\<exists>rs r. resp_regions data = Some rs \<and> r \<in> set rs
                                            \<and> b_vertex_indices r = None)))))))"
  shows "\<exists>err. handleFileUpload toFixed centerScale threeColor fetch (Some file) st
                 = st\<lparr> error := message err, isLoading := False \<rparr>
             \<and> regions (handleFileUpload toFixed centerScale threeColor fetch (Some file) st) = regions st
             \<and> paintedColors (handleFileUpload toFixed centerScale threeColor fetch (Some file) st)
                 = paintedColors st
             \<and> modelData (handleFileUpload toFixed centerScale threeColor fetch (Some file) st)
                 = modelData st
             \<and> colorBuffer (handleFileUpload toFixed centerScale threeColor fetch (Some file) st)
                 = colorBuffer st"
proof -
  let ?goal = "\<exists>err. uploadPipeline toFixed centerScale fetch file
                = (Inl err :: js_error + (float32, 'c) BufferGeometry \<times> PaintRegion list)"
  let ?va = "\<lambda>parsed :: (float32, 'c) BufferGeometry.
               snd (uniqueLoop toFixed (position (centerScale parsed)))"
  from assms consider
      (decoder) e where "parseSTL (arrayBuffer file) = (Inl e :: js_error + (float32, 'c) BufferGeometry)"
    | (service) parsed :: "(float32, 'c) BufferGeometry" where "parseSTL (arrayBuffer file) = Inr parsed"
        "(\<exists>e. fetch (?va parsed) = Rejected e)
                  \<or> (\<exists>response. fetch (?va parsed) = Resolved response \<and>
                        (\<not> ok response
                         \<or> (\<exists>e. json response = Inl e)
                         \<or> (\<exists>data. json response = Inr data \<and>
                               (\<not> success data
                                \<or> resp_regions data = None
                                \<or> (\<exists>rs r. resp_regions data = Some rs \<and> r \<in> set rs
                                            \<and> b_vertex_indices r = None)))))"
    by blast
  then have ?goal
  proof cases
    case decoder
    then show ?thesis by (simp add: uploadPipeline_def)
  next
    case service
    from segmentWithBackend_failures[of fetch toFixed "position (centerScale parsed)"] service(2)
    obtain err where "segmentWithBackend toFixed fetch (position (centerScale parsed)) = Inl err"
      by blast
    with service(1) show ?thesis by (simp add: uploadPipeline_def Let_def)
  qed
  then obtain err where "uploadPipeline toFixed centerScale fetch file
                = (Inl err :: js_error + (float32, 'c) BufferGeometry \<times> PaintRegion list)" by blast
  from handleFileUpload_failure[OF this, of threeColor st]
  show ?thesis by (auto simp: colorBuffer_def)
qed

lemma parseSTL_ascii:
  "parseSTL asciiFile = Inl (Error ''ASCII STL not supported yet. Please use binary STL.'')"
  by (simp add: parseSTL_def solid_ascii) (simp add: asciiFile_def)

lemma parseSTL_emptyMesh:
  "parseSTL emptyMeshFile = Inr \<lparr> position = [], normal = [], color_attr = None \<rparr>"
proof -
  have "map unat (take 5 emptyMeshFile) \<noteq> solid" "length emptyMeshFile = 84"
    by (simp_all add: emptyMeshFile_def zeros_not_solid)
  then show ?thesis
    by (simp add: parseSTL_def getUint32_80 le32_emptyMesh)
qed

theorem upload_failure_aborts_witness:
  "parseSTL (arrayBuffer asciiUpload) =
     (Inl (Error ''ASCII STL not supported yet. Please use binary STL.'') :: js_error + (float32, rat) BufferGeometry)
   \<and> regions (handleFileUpload toFixed32 keepGeometry threeColorRat namelessFetch (Some asciiUpload) paintedState)
       = [regionA, regionB]
   \<and> paintedColors (handleFileUpload toFixed32 keepGeometry threeColorRat namelessFetch (Some asciiUpload) paintedState)
       = paintedColors paintedState
   \<and> modelData (handleFileUpload toFixed32 keepGeometry threeColorRat namelessFetch (Some asciiUpload) paintedState)
       = modelData paintedState
   \<and> colorBuffer (handleFileUpload toFixed32 keepGeometry threeColorRat namelessFetch (Some asciiUpload) paintedState)
       = colorBuffer paintedState"
proof -
  have p: "parseSTL (arrayBuffer asciiUpload) =
     (Inl (Error ''ASCII STL not supported yet. Please use binary STL.'') :: js_error + (float32, rat) BufferGeometry)"
    by (simp add: asciiUpload_def parseSTL_ascii)
  then have "\<exists>e. parseSTL (arrayBuffer asciiUpload) = (Inl e :: js_error + (float32, rat) BufferGeometry)"
    by blast
  then have a: "(\<exists>e. parseSTL (arrayBuffer asciiUpload) = (Inl e :: js_error + (float32, rat) BufferGeometry))
         \<or> (\<exists>parsed va. parseSTL (arrayBuffer asciiUpload) = Inr parsed
               \<and> va = snd (uniqueLoop toFixed32 (position (keepGeometry parsed)))
               \<and> ((\<exists>e. namelessFetch va = Rejected e)
                  \<or> (\<exists>response. namelessFetch va = Resolved response \<and>
                        (\<not> ok response
                         \<or> (\<exists>e. json response = Inl e)
                         \<or> (\<exists>data. json response = Inr data \<and>
                               (\<not> success data
                                \<or> resp_regions data = None
                                \<or> (\<exists>rs r. resp_regions data = Some rs \<and> r \<in> set rs
                                            \<and> b_vertex_indices r = None)))))))"
    by (rule disjI1)
  have r: "regions paintedState = [regionA, regionB]"
    by (simp add: paintedState_def)
  from upload_failure_aborts [OF a, of threeColorRat paintedState] p r
  show ?thesis by auto
qed

text \<open>
  C4 as stated fails: the response is malformed (its region has no id, name or colour),
  no error is reported, and the region list and the overrides of the loaded model are
  replaced.
\<close>

theorem upload_nameless_counterexample:
  "regions (handleFileUpload toFixed32 keepGeometry threeColorRat namelessFetch (Some emptyUpload) paintedState)
     = [\<lparr> region_id = None, region_name = None, color = None, visible = True, vertex_indices = [],
          vertex_count = 0, vertex_percentage = Percentage 0 0 \<rparr>]
   \<and> paintedColors (handleFileUpload toFixed32 keepGeometry threeColorRat namelessFetch (Some emptyUpload) paintedState)
       ''legs'' = None
   \<and> error (handleFileUpload toFixed32 keepGeometry threeColorRat namelessFetch (Some emptyUpload) paintedState) = []
   \<and> regions paintedState = [regionA, regionB]
   \<and> paintedColors paintedState ''legs'' = Some ''#FFD700''"
proof -
  have seg: "segmentWithBackend toFixed32 namelessFetch [] =
      Inr [\<lparr> region_id = None, region_name = None, color = None, visible = False, vertex_indices = [],
             vertex_count = 0, vertex_percentage = Percentage 0 0 \<rparr>]"
    by (simp add: segmentWithBackend_def uniqueLoop_def position_count_def namelessFetch_def
        reverseLoop_def mapRegion_def expandRegion_def Let_def)
  have pipe: "uploadPipeline toFixed32 keepGeometry namelessFetch emptyUpload =
      Inr (\<lparr> position = [], normal = [], color_attr = None :: rat list option \<rparr>,
           [\<lparr> region_id = None, region_name = None, color = None, visible = False, vertex_indices = [],
              vertex_count = 0, vertex_percentage = Percentage 0 0 \<rparr>])"
    by (simp add: uploadPipeline_def emptyUpload_def parseSTL_emptyMesh keepGeometry_def seg)
  show ?thesis
    by (simp add: handleFileUpload_def pipe uploadSettle_def uploadStart_def Let_def)
       (simp add: paintedState_def)
qed

section \<open>The upload controls\<close>

lemma overlay_disabled_while_loading:
  "isLoading (hooks page) \<Longrightarrow> chooseFile UploadOverlay file page = None"
  by (simp add: chooseFile_def disabled_def)

text \<open>
  C9. With a model loaded, choosing a file on the New Model control starts an upload, and
  while it is in flight (\<open>isLoading\<close> is true) choosing another file on the same control
  starts a second one: two uploads are in flight. The control of the upload overlay
  refuses a file while \<open>isLoading\<close> is true.
\<close>

theorem second_upload_while_loading:
  "chooseFile NewModel asciiUpload \<lparr> hooks = paintedState, inFlight = [] \<rparr>
     = Some \<lparr> hooks = paintedState\<lparr> isLoading := True \<rparr>, inFlight = [asciiUpload] \<rparr>
   \<and> chooseFile NewModel emptyUpload \<lparr> hooks = paintedState\<lparr> isLoading := True \<rparr>, inFlight = [asciiUpload] \<rparr>
     = Some \<lparr> hooks = paintedState\<lparr> isLoading := True \<rparr>, inFlight = [asciiUpload, emptyUpload] \<rparr>
   \<and> chooseFile UploadOverlay emptyUpload
       \<lparr> hooks = initialState\<lparr> backendStatus := Online, isLoading := True \<rparr> :: (float32, rat) AppState,
         inFlight = [asciiUpload] \<rparr> = None"
  by (simp add: chooseFile_def rendered_def disabled_def uploadStart_def paintedState_def initialState_def)

section \<open>The minimal front end on the example meshes\<close>

lemma toFixed4_0: "toFixedRat 0 4 = ''0.0000''"
  unfolding toFixedRat_def Let_def
  by (simp add: floor_one_div decimal.simps replicate_numeral_eval)
lemma toFixed4_4: "toFixedRat 4 4 = ''4.0000''"
  unfolding toFixedRat_def Let_def
  by (simp add: floor_numeral_div decimal.simps replicate_numeral_eval)
lemma toFixed4_pos: "toFixedRat (5 / 2) 4 = ''2.5000''"
  unfolding toFixedRat_def Let_def
  by (simp add: floor_numeral_div decimal.simps replicate_numeral_eval)
lemma toFixed4_neg: "toFixedRat (- (5 / 2)) 4 = ''-2.5000''"
  unfolding toFixedRat_def Let_def
  by (simp add: floor_numeral_div decimal.simps replicate_numeral_eval)

lemma upt_9: "[0..<9] = [0, 1, 2, 3, 4, 5, 6, 7, 8]"
  by (simp add: upt_rec)

lemma centerScale_centred: "centerScaleRat centredVertices = centredVertices"
  by (simp add: centerScaleRat_def centredVertices_def axis_def minimum_def maximum_def upt_3 upt_9 Let_def)

lemma centerScale_offset:
  "centerScaleRat offsetVertices = [-5/2, -5/2, 5/2, 5/2, -5/2, -5/2, -5/2, 5/2, -5/2]"
  by (simp add: centerScaleRat_def offsetVertices_def axis_def minimum_def maximum_def upt_3 upt_9 Let_def)


lemma color_base: "threeColorRat (Hex 0x8B4513) = (139 / 255, 69 / 255, 19 / 255)"
  by (simp add: threeColorRat_def setHex_def)

lemmas toFixed4 = toFixed4_0 toFixed4_4 toFixed4_pos toFixed4_neg

lemma vertArray_offset:
  "snd (simpleUniqueLoop toFixedRat offsetVertices) = [(0, 0, 4), (4, 0, 0), (0, 4, 0)]"
  by (simp add: simpleUniqueLoop_def offsetVertices_def position_count_def upt_3
      simpleUniqueStep_def getXYZ_def vertexKey_def toFixed4)

lemma vertArray_centred:
  "snd (simpleUniqueLoop toFixedRat centredVertices) =
     [(-5/2, -5/2, -5/2), (5/2, 5/2, 5/2), (-5/2, 5/2, -5/2)]"
  by (simp add: simpleUniqueLoop_def centredVertices_def position_count_def upt_3
      simpleUniqueStep_def getXYZ_def vertexKey_def toFixed4)

lemma uniqueToFull_centred:
  "uniqueToFullLoop toFixedRat centredVertices =
     [''-2.5000,-2.5000,-2.5000'' \<mapsto> [0], ''2.5000,2.5000,2.5000'' \<mapsto> [1],
      ''-2.5000,2.5000,-2.5000'' \<mapsto> [2]]"
  by (simp add: uniqueToFullLoop_def centredVertices_def position_count_def upt_3
      uniqueToFullStep_def getXYZ_def vertexKey_def toFixed4)

lemma uniqueToFull_offset:
  "uniqueToFullLoop toFixedRat (centerScaleRat offsetVertices) =
     [''-2.5000,-2.5000,2.5000'' \<mapsto> [0], ''2.5000,-2.5000,-2.5000'' \<mapsto> [1],
      ''-2.5000,2.5000,-2.5000'' \<mapsto> [2]]"
  by (simp add: centerScale_offset)
     (simp add: uniqueToFullLoop_def position_count_def upt_3
      uniqueToFullStep_def getXYZ_def vertexKey_def toFixed4)

lemma simplePaint_negative:
  "simplePaint toFixedRat centerScaleRat threeColorRat (constantRandom 0) centredVertices
     [serviceRegion ''base'' [-1, 0]] =
   Inl (TypeError ''Cannot read properties of undefined (reading 0)'')"
proof -
  have len: "length centredVertices mod 3 = 0" "position_count centredVertices = 3"
    by (simp_all add: centredVertices_def position_count_def)
  show ?thesis
    unfolding simplePaint_def simpleColors_def
    by (simp add: len centerScale_centred vertArray_centred uniqueToFull_centred Let_def color_808080 fillDefault_3
        simplePaintRegion_def getProperty_def objectPrototype_def serviceRegion_def regionColorMap_def propertyKey_def bindE_def
        simplePaintIndex_def vertexKey_def toFixed4 color_base setRGB_def)
qed

lemma simplePaint_random:
  "simplePaint toFixedRat centerScaleRat threeColorRat (constantRandom v) centredVertices
     [serviceRegion ''cloak'' [0]] =
   Inr (map Some (case setHex v of (r, g, b) \<Rightarrow> [r, g, b, 128 / 255, 128 / 255, 128 / 255, 128 / 255, 128 / 255, 128 / 255]))"
proof -
  have len: "length centredVertices mod 3 = 0" "position_count centredVertices = 3"
    by (simp_all add: centredVertices_def position_count_def)
  obtain r g b where c: "setHex v = (r, g, b)" by (cases "setHex v")
  have tc: "threeColorRat (Hex (constantRandom v 0)) = (r, g, b)"
    by (simp add: threeColorRat_def constantRandom_def c)
  show ?thesis
    unfolding simplePaint_def simpleColors_def
    by (simp add: len centerScale_centred vertArray_centred uniqueToFull_centred Let_def color_808080 fillDefault_3
        simplePaintRegion_def getProperty_def objectPrototype_def serviceRegion_def regionColorMap_def propertyKey_def bindE_def
        simplePaintIndex_def vertexKey_def toFixed4 tc c setRGB_def)
qed

text \<open>
  A region whose id is \<^verbatim>\<open>constructor\<close>: the colour is the inherited function, no random
  number is drawn, and the entries of the raw index it reaches are NaN.
\<close>

lemma simplePaint_inherited:
  "simplePaint toFixedRat centerScaleRat threeColorRat (constantRandom v) centredVertices
     [serviceRegion ''constructor'' [0]] =
   Inr [None, None, None, Some (128 / 255), Some (128 / 255), Some (128 / 255),
        Some (128 / 255), Some (128 / 255), Some (128 / 255)]"
proof -
  have len: "length centredVertices mod 3 = 0" "position_count centredVertices = 3"
    by (simp_all add: centredVertices_def position_count_def)
  show ?thesis
    unfolding simplePaint_def simpleColors_def
    by (simp add: len centerScale_centred vertArray_centred uniqueToFull_centred Let_def color_808080 fillDefault_3
        simplePaintRegion_def getProperty_def objectPrototype_def serviceRegion_def regionColorMap_def
        propertyKey_def bindE_def simplePaintIndex_def vertexKey_def toFixed4 setRGB_def)
qed

lemma simpleExpand_offset:
  "simpleExpand toFixedRat centerScaleRat offsetVertices 0 = []"
  "simpleExpand toFixedRat centerScaleRat offsetVertices 1 = []"
  "simpleExpand toFixedRat centerScaleRat offsetVertices 2 = []"
  by (simp_all add: simpleExpand_def vertArray_offset uniqueToFull_offset vertexKey_def toFixed4)

lemma simpleExpand_centred:
  "simpleExpand toFixedRat centerScaleRat centredVertices 0 = [0]"
  "simpleExpand toFixedRat centerScaleRat centredVertices 1 = [1]"
  "simpleExpand toFixedRat centerScaleRat centredVertices 2 = [2]"
  by (simp_all add: simpleExpand_def centerScale_centred vertArray_centred uniqueToFull_centred vertexKey_def toFixed4)

lemma toFixed6_pos: "toFixedRat (5 / 2) 6 = ''2.500000''"
  unfolding toFixedRat_def Let_def
  by (simp add: floor_numeral_div decimal.simps replicate_numeral_eval)

lemma toFixed6_neg: "toFixedRat (- (5 / 2)) 6 = ''-2.500000''"
  unfolding toFixedRat_def Let_def
  by (simp add: floor_numeral_div decimal.simps replicate_numeral_eval)

lemma uniqueLoop_offset:
  "uniqueLoop toFixedRat (centerScaleRat offsetVertices) =
     ([''-2.500000,-2.500000,2.500000'' \<mapsto> 0, ''2.500000,-2.500000,-2.500000'' \<mapsto> 1,
       ''-2.500000,2.500000,-2.500000'' \<mapsto> 2],
      [(-5/2, -5/2, 5/2), (5/2, -5/2, -5/2), (-5/2, 5/2, -5/2)])"
  by (simp add: centerScale_offset)
     (simp add: uniqueLoop_def position_count_def upt_3 uniqueStep_def
      getXYZ_def vertexKey_def toFixed6_pos toFixed6_neg numeral_2_eq_2)

lemma reverseLoop_offset:
  "reverseLoop toFixedRat (centerScaleRat offsetVertices)
     (fst (uniqueLoop toFixedRat (centerScaleRat offsetVertices))) =
   [0 \<mapsto> [0], 1 \<mapsto> [1], 2 \<mapsto> [2]]"
  by (simp add: uniqueLoop_offset)
     (simp add: centerScale_offset reverseLoop_def position_count_def upt_3 reverseStep_def
        getXYZ_def vertexKey_def toFixed6_pos toFixed6_neg)

lemma expandRegion_offset:
  "expandRegion (reverseLoop toFixedRat (centerScaleRat offsetVertices)
     (fst (uniqueLoop toFixedRat (centerScaleRat offsetVertices)))) [0, 1, 2] = [0, 1, 2]"
  by (simp add: reverseLoop_offset expandRegion_def expandStep_def)


lemma simplePaint_base_offset:
  "simplePaint toFixedRat centerScaleRat threeColorRat (constantRandom 0) offsetVertices
     [baseRegion [0, 1, 2]] =
   Inr (map Some [128 / 255, 128 / 255, 128 / 255, 128 / 255, 128 / 255, 128 / 255, 128 / 255, 128 / 255, 128 / 255])"
proof -
  have len: "length offsetVertices mod 3 = 0"
    by (simp add: offsetVertices_def)
  have cnt: "position_count (centerScaleRat offsetVertices) = 3"
    by (simp add: centerScale_offset) (simp add: position_count_def)
  show ?thesis
    unfolding simplePaint_def simpleColors_def
    by (simp add: len cnt vertArray_offset uniqueToFull_offset Let_def color_808080 fillDefault_3
        simplePaintRegion_def getProperty_def baseRegion_def regionColorMap_def propertyKey_def bindE_def
        simplePaintIndex_def vertexKey_def toFixed4 color_base)
qed

lemma simplePaint_base_centred:
  "simplePaint toFixedRat centerScaleRat threeColorRat (constantRandom 0) centredVertices
     [baseRegion [0, 1, 2]] =
   Inr (map Some [139 / 255, 69 / 255, 19 / 255, 139 / 255, 69 / 255, 19 / 255, 139 / 255, 69 / 255, 19 / 255])"
proof -
  have len: "length centredVertices mod 3 = 0" "position_count centredVertices = 3"
    by (simp_all add: centredVertices_def position_count_def)
  show ?thesis
    unfolding simplePaint_def simpleColors_def
    by (simp add: len centerScale_centred vertArray_centred uniqueToFull_centred Let_def color_808080 fillDefault_3
        simplePaintRegion_def getProperty_def baseRegion_def regionColorMap_def propertyKey_def bindE_def
        simplePaintIndex_def vertexKey_def toFixed4 color_base setRGB_def)
qed

lemma color_baseRegion:
  "threeColorRat (colorArg (b_color (baseRegion [0, 1, 2]))) = (139 / 255, 69 / 255, 19 / 255)"
  by (simp add: baseRegion_def colorArg_def color_8B4513)

text \<open>
  C2. The colouring step of SimpleApp.tsx on a mesh of one triangle, with one region that
  lists the three canonical vertices and has the same colour in the response and in the
  colour table of SimpleApp.tsx. The raw indices of the region are 0, 1 and 2, and each
  of them is to be overwritten with the colour of the region. The table of unique
  vertices holds the coordinates as decoded; the map from keys to raw indices is built
  after \<^verbatim>\<open>center()\<close> and \<^verbatim>\<open>scale()\<close> have rewritten the same array in place. Every key
  of the table misses, no raw index is reached, and the whole buffer stays at the default
  colour. On the same triangle placed where centring and scaling leave it, the three raw
  indices get the colour of the region. App.tsx forms both of its tables from the array
  after centring and scaling, and maps the same list to the raw indices 0, 1 and 2.
\<close>

theorem simple_region_left_default:
  "snd (simpleUniqueLoop toFixedRat offsetVertices) = [(0, 0, 4), (4, 0, 0), (0, 4, 0)]
   \<and> centerScaleRat offsetVertices = [-5/2, -5/2, 5/2, 5/2, -5/2, -5/2, -5/2, 5/2, -5/2]
   \<and> simpleExpand toFixedRat centerScaleRat offsetVertices 0 = []
   \<and> simpleExpand toFixedRat centerScaleRat offsetVertices 1 = []
   \<and> simpleExpand toFixedRat centerScaleRat offsetVertices 2 = []
   \<and> simplePaint toFixedRat centerScaleRat threeColorRat (constantRandom 0) offsetVertices
        [baseRegion [0, 1, 2]] =
      Inr (map Some [128 / 255, 128 / 255, 128 / 255, 128 / 255, 128 / 255, 128 / 255, 128 / 255, 128 / 255, 128 / 255])
   \<and> threeColorRat (Hex 0x808080) = (128 / 255, 128 / 255, 128 / 255)
   \<and> threeColorRat (colorArg (b_color (baseRegion [0, 1, 2]))) = (139 / 255, 69 / 255, 19 / 255)
   \<and> simplePaint toFixedRat centerScaleRat threeColorRat (constantRandom 0) centredVertices
        [baseRegion [0, 1, 2]] =
      Inr (map Some [139 / 255, 69 / 255, 19 / 255, 139 / 255, 69 / 255, 19 / 255, 139 / 255, 69 / 255, 19 / 255])
   \<and> expandRegion (reverseLoop toFixedRat (centerScaleRat offsetVertices)
        (fst (uniqueLoop toFixedRat (centerScaleRat offsetVertices)))) [0, 1, 2] = [0, 1, 2]"
  using vertArray_offset centerScale_offset simpleExpand_offset simplePaint_base_offset
    simplePaint_base_centred color_808080 color_baseRegion expandRegion_offset
  by simp

lemma expandRegion_skips:
  "rm b = None \<Longrightarrow> expandRegion rm (xs @ b # ys) = expandRegion rm (xs @ ys)"
  by (simp add: expandRegion_concat)

lemma reverseLoop_out_of_range:
  assumes "b < 0 \<or> int (length (snd (uniqueLoop tf ps))) \<le> b"
  shows "reverseLoop tf ps (fst (uniqueLoop tf ps)) b = None"
proof -
  have "filedUnder tf ps (fst (uniqueLoop tf ps)) i \<noteq> Some b" if "i < position_count ps" for i
  proof -
    from forward_total[OF that, of tf] obtain c where "c < length (snd (uniqueLoop tf ps))"
      "forwardMap tf ps i = Some c" by blast
    with assms show ?thesis by (auto simp: filedUnder_forward)
  qed
  then have "[i\<leftarrow>[0..<position_count ps]. filedUnder tf ps (fst (uniqueLoop tf ps)) i = Some b] = []"
    by (auto simp: filter_empty_conv)
  then show ?thesis by (simp add: reverseLoop_lookup)
qed

text \<open>
  C8. In SimpleApp.tsx a region that lists the index \<open>-1\<close> makes the colouring step
  throw; \<open>expandRegion\<close> of App.tsx skips the same index and keeps the rest.
\<close>

theorem simple_negative_index_throws:
  "simplePaint toFixedRat centerScaleRat threeColorRat (constantRandom 0) centredVertices
     [serviceRegion ''base'' [-1, 0]] =
   Inl (TypeError ''Cannot read properties of undefined (reading 0)'')
   \<and> expandRegion [0 \<mapsto> [0], 1 \<mapsto> [1], 2 \<mapsto> [2]] [-1, 0] = [0]"
  using simplePaint_negative
  by (simp add: expandRegion_def expandStep_def)

section \<open>Precision of the keys\<close>















section \<open>Determinism of the two colouring steps on examples\<close>

lemma simpleColors_random:
  "simpleColors toFixedRat threeColorRat (constantRandom v)
     (snd (simpleUniqueLoop toFixedRat centredVertices)) centredVertices [serviceRegion ''cloak'' [0]] =
   Inr (map Some (case setHex v of (r, g, b) \<Rightarrow> [r, g, b, 128 / 255, 128 / 255, 128 / 255, 128 / 255, 128 / 255, 128 / 255]))"
proof -
  have len: "position_count centredVertices = 3"
    by (simp add: centredVertices_def position_count_def)
  obtain r g b where c: "setHex v = (r, g, b)" by (cases "setHex v")
  have tc: "threeColorRat (Hex (constantRandom v 0)) = (r, g, b)"
    by (simp add: threeColorRat_def constantRandom_def c)
  show ?thesis
    unfolding simpleColors_def
    by (simp add: len vertArray_centred uniqueToFull_centred Let_def color_808080 fillDefault_3
        simplePaintRegion_def getProperty_def objectPrototype_def serviceRegion_def regionColorMap_def propertyKey_def
        simplePaintIndex_def vertexKey_def toFixed4 tc c setRGB_def)
qed

text \<open>
  C6 as stated fails for the colouring step of SimpleApp.tsx: the same vertices and the
  same region, whose id is not in the colour table, give two different buffers for two
  values of \<^verbatim>\<open>Math.random\<close>.
\<close>

theorem compositor_random_counterexample:
  "simpleColors toFixedRat threeColorRat (constantRandom 0)
     (snd (simpleUniqueLoop toFixedRat centredVertices)) centredVertices [serviceRegion ''cloak'' [0]] =
   Inr (map Some [0, 0, 0, 128 / 255, 128 / 255, 128 / 255, 128 / 255, 128 / 255, 128 / 255])
   \<and> simpleColors toFixedRat threeColorRat (constantRandom 255)
     (snd (simpleUniqueLoop toFixedRat centredVertices)) centredVertices [serviceRegion ''cloak'' [0]] =
   Inr (map Some [0, 0, 1, 128 / 255, 128 / 255, 128 / 255, 128 / 255, 128 / 255, 128 / 255])"
  by (simp add: simpleColors_random setHex_def)

theorem compositor_deterministic_witness:
  "colorBuffer (applyColorsToGeometry threeColorRat
       (toggleRegionVisibility (Some ''legs'')
          (applyColorsToGeometry threeColorRat (toggleRegionVisibility (Some ''legs'') paintedState))))
     = colorBuffer (applyColorsToGeometry threeColorRat paintedState)
   \<and> simpleColors toFixedRat threeColorRat (constantRandom 0)
       (snd (simpleUniqueLoop toFixedRat centredVertices)) centredVertices [serviceRegion ''base'' [0]]
     = simpleColors toFixedRat threeColorRat (constantRandom 255)
       (snd (simpleUniqueLoop toFixedRat centredVertices)) centredVertices [serviceRegion ''base'' [0]]"
proof -
  let ?s2 = "toggleRegionVisibility (Some ''legs'')
          (applyColorsToGeometry threeColorRat (toggleRegionVisibility (Some ''legs'') paintedState))"
  let ?geo = "\<lparr> position = [0, 0, 0, 0, 0, 0, 0, 0, 0 :: float32],
                normal = [0, 0, 0, 0, 0, 0, 0, 0, 0 :: float32], color_attr = None :: rat list option \<rparr>"
  let ?m1 = "\<lparr> model_name = ''seam.stl'', model_size = 134, model_geometry = ?geo, model_vertexCount = 3 \<rparr>"
  let ?buf = "composeColors threeColorRat 3 [regionA, regionB\<lparr> visible := False \<rparr>] [''legs'' \<mapsto> ''#FFD700'']"
  let ?m2 = "?m1\<lparr> model_geometry := ?geo\<lparr> color_attr := Some ?buf \<rparr> \<rparr>"
  have m1: "modelData paintedState = Some ?m1" and mesh1: "meshRef paintedState"
    by (simp_all add: paintedState_def)
  have ids: "region_id regionA \<noteq> Some ''legs''" "region_id regionB = Some ''legs''" "visible regionB"
    by (simp_all add: regionA_def regionB_def)
  have m2: "modelData ?s2 = Some ?m2"
    by (simp add: toggleRegionVisibility_def applyColorsToGeometry_def paintedState_def Let_def
        position_count_def ids)
  have mesh2: "meshRef ?s2"
    by (simp add: toggleRegionVisibility_def applyColorsToGeometry_def paintedState_def Let_def)
  have cnt: "position_count (position (model_geometry ?m2)) = position_count (position (model_geometry ?m1))"
    by simp
  have rs: "regions ?s2 = regions paintedState"
    by (simp add: toggleRegionVisibility_def applyColorsToGeometry_def paintedState_def Let_def ids)
  have pc: "paintedColors ?s2 = paintedColors paintedState"
    by (simp add: toggleRegionVisibility_def applyColorsToGeometry_def paintedState_def Let_def)
  have known: "\<forall>r\<in>set [serviceRegion ''base'' [0]]. propertyKey (b_id r) \<in> dom regionColorMap"
    by (simp add: serviceRegion_def propertyKey_def regionColorMap_def)
  from compositor_deterministic [OF m2 m1 mesh2 mesh1 cnt rs pc known,
      of threeColorRat toFixedRat "constantRandom 0" "snd (simpleUniqueLoop toFixedRat centredVertices)"
         centredVertices "constantRandom 255"]
  show ?thesis by blast
qed

section \<open>Visibility\<close>

text \<open>
  C10. \<open>toggleRegionVisibility regionId\<close> keeps the number and order of the regions;
  a region whose id equals \<open>regionId\<close> has its \<open>visible\<close> flag flipped and its id, name,
  colour, raw indices, count and percentage unchanged; a region with another id is
  unchanged; the painted overrides and every other hook are unchanged.
\<close>

theorem toggleRegionVisibility_frame:
  fixes st :: "('f, 'c) AppState" and regionId :: "string option"
  defines "st' \<equiv> toggleRegionVisibility regionId st"
  shows "length (regions st') = length (regions st)
       \<and> (\<forall>k<length (regions st).
            if region_id (regions st ! k) = regionId
            then visible (regions st' ! k) = (\<not> visible (regions st ! k))
               \<and> region_id (regions st' ! k) = region_id (regions st ! k)
               \<and> region_name (regions st' ! k) = region_name (regions st ! k)
               \<and> color (regions st' ! k) = color (regions st ! k)
               \<and> vertex_indices (regions st' ! k) = vertex_indices (regions st ! k)
               \<and> vertex_count (regions st' ! k) = vertex_count (regions st ! k)
               \<and> vertex_percentage (regions st' ! k) = vertex_percentage (regions st ! k)
            else regions st' ! k = regions st ! k)
       \<and> paintedColors st' = paintedColors st
       \<and> st' = st\<lparr> regions := regions st' \<rparr>"
  by (simp add: st'_def toggleRegionVisibility_def)

theorem toggleRegionVisibility_frame_witness:
  "regions (toggleRegionVisibility (Some ''legs'') paintedState) = [regionA, regionB\<lparr> visible := False \<rparr>]
   \<and> paintedColors (toggleRegionVisibility (Some ''legs'') paintedState) = paintedColors paintedState"
proof -
  have "regions paintedState = [regionA, regionB]"
    by (simp add: paintedState_def)
  moreover have "region_id regionA \<noteq> Some ''legs''" "region_id regionB = Some ''legs''" "visible regionB"
    by (simp_all add: regionA_def regionB_def)
  moreover note toggleRegionVisibility_frame [of "Some ''legs''" paintedState]
  ultimately show ?thesis
    by (simp add: toggleRegionVisibility_def)
qed

end
